theory Spec2Isabelle
  imports Complex_Main "HOL-Library.Product_Lexorder" "HOL-Library.Multiset"
begin

section \<open>Monthly disease forecasting: data model\<close>

text \<open>
  The development follows \<^verbatim>\<open>backend/app/agents/report_generator/services/forecast.py\<close>.

  Conventions of the embedding.
  \<^item> Python floats are idealised as real numbers. Observations are the well-formed
    records of the data model: a calendar date and a finite value. The rows that pandas
    would coerce to NaT/NaN and drop, and the exception of \<^verbatim>\<open>pd.to_datetime\<close> on a
    date text that does not parse, are outside the embedding.
  \<^item> A pandas timestamp is a \<open>date\<close>: the number of its month counted from year 0
    (\<open>12 * year + month - 1\<close>) and its day of the month. \<open>ymd\<close> builds one from the
    usual year, month and day. The text produced by \<^verbatim>\<open>strftime("%Y-%m-%d")\<close> is
    represented by the date itself.
  \<^item> A list of \<^verbatim>\<open>{date, value}\<close> records, a pandas Series indexed by date and a
    one-column DataFrame indexed by date are all lists of (date, value) rows in index
    order.
  \<^item> Python integers are unbounded: the horizon is an \<open>int\<close>, negative values included.
\<close>

datatype date = Date (mon: int) (day: nat)

definition ymd :: "int \<Rightarrow> nat \<Rightarrow> nat \<Rightarrow> date" where
  "ymd y m d = Date (12 * y + int m - 1) d"

definition year_of :: "date \<Rightarrow> int" where
  "year_of d = mon d div 12"

definition month_of :: "date \<Rightarrow> nat" where
  "month_of d = nat (mon d mod 12) + 1"

text \<open>Chronological order of dates, as a sorting key.\<close>

definition date_key :: "date \<Rightarrow> int \<times> nat" where
  "date_key d = (mon d, day d)"

type_synonym series = "(date \<times> real) list"

type_synonym conf_frame = "(date \<times> real \<times> real) list"

definition sort_by_date :: "(date \<times> 'a) list \<Rightarrow> (date \<times> 'a) list" where
  "sort_by_date df = sort_key (\<lambda>r. date_key (fst r)) df"

subsection \<open>\<^verbatim>\<open>_is_flat\<close>\<close>

definition list_max :: "real list \<Rightarrow> real" where
  "list_max vs = fold max (tl vs) (hd vs)"

definition list_min :: "real list \<Rightarrow> real" where
  "list_min vs = fold min (tl vs) (hd vs)"

definition is_flat :: "real list \<Rightarrow> bool" where
  "is_flat vs =
     (if vs = [] \<or> length vs < 2 then True
      else list_max vs - list_min vs < 1 / 10 ^ 9)"

subsection \<open>\<^verbatim>\<open>_to_monthly_df\<close>\<close>

text \<open>The total of the values whose date lies in month \<open>k\<close>.\<close>

definition month_total :: "series \<Rightarrow> int \<Rightarrow> real" where
  "month_total df k = sum_list (map snd (filter (\<lambda>r. mon (fst r) = k) df))"

text \<open>
  \<^verbatim>\<open>len(df) >= 28 and df["date"].dt.day.nunique() > 5\<close>
\<close>

definition is_daily :: "series \<Rightarrow> bool" where
  "is_daily df = (length df \<ge> 28 \<and> length (remdups (map (\<lambda>r. day (fst r)) df)) > 5)"

text \<open>
  \<^verbatim>\<open>df.set_index("date").resample("MS").sum()\<close>: one row for every month from the
  first to the last month of the (sorted) frame, months without rows included, each
  with the sum of its rows.
\<close>

definition resample_MS_sum :: "series \<Rightarrow> series" where
  "resample_MS_sum df =
     map (\<lambda>k. (Date k 1, month_total df k)) [mon (fst (hd df)) .. mon (fst (last df))]"

text \<open>
  \<^verbatim>\<open>df["date"] = df["date"].values.astype("datetime64[M]"); df.groupby("date")["value"].sum()\<close>:
  every date is snapped to the first day of its month, and there is one row for every
  month that occurs, in ascending order, with the sum of its rows.
\<close>

definition groupby_month_sum :: "series \<Rightarrow> series" where
  "groupby_month_sum df =
     map (\<lambda>k. (Date k 1, month_total df k)) (sort (remdups (map (\<lambda>r. mon (fst r)) df)))"

definition to_monthly_df :: "series \<Rightarrow> series" where
  "to_monthly_df series =
     (if series = [] then []
      else
        let df = sort_by_date series;
            monthly = (if is_daily df then resample_MS_sum df else groupby_month_sum df)
        in sort_by_date monthly)"

subsection \<open>\<^verbatim>\<open>_make_future_month_index\<close>\<close>

text \<open>
  \<^verbatim>\<open>pd.date_range(last_month + pd.offsets.MonthBegin(1), periods=steps, freq="MS")\<close>:
  \<open>MonthBegin(1)\<close> moves any date to the first day of the following month, and the
  range holds \<open>steps\<close> consecutive month starts from there. For a number of periods
  below 1 the range is empty, as \<^verbatim>\<open>range(steps)\<close> and \<^verbatim>\<open>[avg] * steps\<close> are.
\<close>

definition make_future_month_index :: "date \<Rightarrow> int \<Rightarrow> date list" where
  "make_future_month_index last_month steps =
     map (\<lambda>i. Date (mon last_month + 1 + int i) 1) [0..<nat steps]"

section \<open>Strings and region normalisation\<close>

text \<open>
  Strings are lists of bytes; the case conversions, \<^verbatim>\<open>strip\<close> and \<^verbatim>\<open>isalpha\<close> are
  those of Python on ASCII text.
\<close>

definition is_space :: "char \<Rightarrow> bool" where
  "is_space c = (let n = (of_char c :: nat) in n = 32 \<or> (9 \<le> n \<and> n \<le> 13) \<or> (28 \<le> n \<and> n \<le> 31))"

definition strip :: "string \<Rightarrow> string" where
  "strip s = rev (dropWhile is_space (rev (dropWhile is_space s)))"

definition lower_char :: "char \<Rightarrow> char" where
  "lower_char c = (let n = (of_char c :: nat) in if 65 \<le> n \<and> n \<le> 90 then char_of (n + 32) else c)"

definition upper_char :: "char \<Rightarrow> char" where
  "upper_char c = (let n = (of_char c :: nat) in if 97 \<le> n \<and> n \<le> 122 then char_of (n - 32) else c)"

definition lower :: "string \<Rightarrow> string" where
  "lower s = map lower_char s"

definition upper :: "string \<Rightarrow> string" where
  "upper s = map upper_char s"

definition is_alpha_char :: "char \<Rightarrow> bool" where
  "is_alpha_char c = (let n = (of_char c :: nat) in (65 \<le> n \<and> n \<le> 90) \<or> (97 \<le> n \<and> n \<le> 122))"

definition isalpha :: "string \<Rightarrow> bool" where
  "isalpha s = (s \<noteq> [] \<and> list_all is_alpha_char s)"

text \<open>\<^verbatim>\<open>p in s\<close> for strings.\<close>

fun is_substring :: "string \<Rightarrow> string \<Rightarrow> bool" where
  "is_substring p [] = (p = [])"
| "is_substring p (c # cs) = (take (length p) (c # cs) = p \<or> is_substring p cs)"

datatype error = RuntimeError string | KeyError | IndexError | AttributeError | External string

text \<open>
  The frames that statsmodels returns. The label of a forecast row is a timestamp when
  statsmodels can continue the date index of the history, and an integer position
  otherwise; a bound of its interval is a float that may be NaN.
\<close>

datatype label = is_Month: Month (the_month: date) | Position int

datatype bound = Val real | NaN

type_synonym fseries = "(label \<times> real) list"

type_synonym fconf = "(label \<times> bound \<times> bound) list"

definition ALIAS_TO_ISO3 :: "string \<rightharpoonup> string" where
  "ALIAS_TO_ISO3 = map_of
     [(''world'', ''WLD''), (''global'', ''WLD''), (''usa'', ''USA''), (''united states'', ''USA'')]"

text \<open>
  The collaborators of the forecasting service. \<^verbatim>\<open>to_iso3\<close>,
  \<^verbatim>\<open>fetch_covid_timeseries\<close> and \<^verbatim>\<open>generate_synthetic_timeseries\<close> live in the module
  \<^verbatim>\<open>timeseries\<close>; \<^verbatim>\<open>fetch_local_timeseries\<close> reads the merged CSV file;
  \<open>SARIMAX_fit\<close> stands for fitting the statsmodels model and taking the mean and the
  80% interval of its forecast for the given number of steps; \<open>Timestamp\<close> is
  \<^verbatim>\<open>pd.Timestamp\<close> on a string. Each of them is a parameter; an \<open>Inl\<close> result is a
  raised exception. An adapter returning \<^verbatim>\<open>None\<close> returns the empty list here. The
  generator takes \<^verbatim>\<open>points\<close> and \<^verbatim>\<open>start_value\<close>.
\<close>

record env =
  HAS_SM :: bool
  SARIMAX_fit :: "series \<Rightarrow> int \<Rightarrow> error + (fseries \<times> fconf)"
  to_iso3 :: "string \<Rightarrow> error + string"
  fetch_covid_timeseries :: "string \<Rightarrow> string \<Rightarrow> string \<Rightarrow> error + series"
  fetch_local_timeseries :: "string \<Rightarrow> string \<Rightarrow> string \<Rightarrow> string \<Rightarrow> error + series"
  generate_synthetic_timeseries :: "string \<Rightarrow> string \<Rightarrow> nat \<Rightarrow> real \<Rightarrow> series"
  Timestamp :: "string \<Rightarrow> error + date"

text \<open>The final loop of \<^verbatim>\<open>_region_candidates\<close>: first occurrences, in order.\<close>

fun uniq :: "string list \<Rightarrow> string list \<Rightarrow> string list" where
  "uniq seen [] = []"
| "uniq seen (x # xs) = (if x \<in> set seen then uniq seen xs else x # uniq (x # seen) xs)"

definition region_candidates :: "env \<Rightarrow> string \<Rightarrow> string list" where
  "region_candidates E region =
     (let s = strip region in
      if s = [] then []
      else
        let cands1 = [s];
            cands2 = (case ALIAS_TO_ISO3 (lower s) of
                        Some alias \<Rightarrow> if alias \<noteq> [] then cands1 @ [alias] else cands1
                      | None \<Rightarrow> cands1);
            cands3 = (case to_iso3 E s of
                        Inr iso3 \<Rightarrow> if iso3 \<noteq> [] \<and> upper iso3 \<notin> set cands2
                                   then cands2 @ [upper iso3] else cands2
                      | Inl e \<Rightarrow> cands2);
            cands4 = (if length s = 3 \<and> isalpha s
                      then (let up = upper s in if up \<notin> set cands3 then cands3 @ [up] else cands3)
                      else cands3)
        in uniq [] cands4)"

section \<open>Data retrieval with provenance: \<^verbatim>\<open>get_monthly_history\<close>\<close>

text \<open>
  The test that guards the local and the synthetic stage:
  \<^verbatim>\<open>not series or len(series) < 2 or _is_flat([float(x.get("value", 0.0)) for x in series])\<close>
\<close>

definition needs_fallback :: "series \<Rightarrow> bool" where
  "needs_fallback series = (series = [] \<or> length series < 2 \<or> is_flat (map snd series))"

text \<open>
  Stage 1, the live source: only for a disease whose name contains \<^verbatim>\<open>covid\<close>; an
  exception leaves no series. The result is the series and the provenance so far.
\<close>

definition live_stage :: "env \<Rightarrow> string \<Rightarrow> string \<Rightarrow> string \<Rightarrow> string \<Rightarrow> series \<times> string list" where
  "live_stage E disease_l region date_from date_to =
     (if is_substring ''covid'' disease_l
      then (case fetch_covid_timeseries E region date_from date_to of
              Inr s \<Rightarrow> (s, if s \<noteq> [] then [''live: disease.sh (JHU)''] else [])
            | Inl e \<Rightarrow> ([], []))
      else ([], []))"

text \<open>
  \<^verbatim>\<open>tried_regions = _region_candidates(region)\<close>, or the region itself when there is
  no candidate.
\<close>

definition tried_regions :: "env \<Rightarrow> string \<Rightarrow> string list" where
  "tried_regions E region =
     (let cands = region_candidates E region in if cands = [] then [region] else cands)"

text \<open>One call of the local adapter: an exception counts as an empty series.\<close>

definition try_fetch_local :: "env \<Rightarrow> string \<Rightarrow> string \<Rightarrow> string \<Rightarrow> string \<Rightarrow> series" where
  "try_fetch_local E disease_l r date_from date_to =
     (case fetch_local_timeseries E disease_l r date_from date_to of
        Inr s \<Rightarrow> s | Inl e \<Rightarrow> [])"

text \<open>
  The loop over the region keys: the first key whose local series is not empty is
  taken, with that series, and the loop ends.
\<close>

fun local_loop :: "env \<Rightarrow> string \<Rightarrow> string \<Rightarrow> string \<Rightarrow> string list \<Rightarrow> (series \<times> string) option" where
  "local_loop E disease_l date_from date_to [] = None"
| "local_loop E disease_l date_from date_to (r # rs) =
     (let series_local = try_fetch_local E disease_l r date_from date_to
      in if series_local \<noteq> [] then Some (series_local, r)
         else local_loop E disease_l date_from date_to rs)"

definition local_note :: "string \<Rightarrow> string" where
  "local_note r = ''local: monthly dataset (region key='' @ [CHR 0x27] @ r @ [CHR 0x27] @ '')''"

definition get_monthly_history ::
  "env \<Rightarrow> string \<Rightarrow> string \<Rightarrow> string \<Rightarrow> string \<Rightarrow> series \<times> string list \<times> string list" where
  "get_monthly_history E disease region date_from date_to =
     (let disease_l = strip (lower disease);
          (series0, provenance0) = live_stage E disease_l region date_from date_to;
          (series1, provenance1, warnings1) =
             (if needs_fallback series0
              then
                (case local_loop E disease_l date_from date_to (tried_regions E region) of
                   Some (series_local, r) \<Rightarrow>
                     (series_local, provenance0 @ [local_note r], [])
                 | None \<Rightarrow>
                     (series0, provenance0,
                      [''No usable live or local data in the requested window.'']))
              else (series0, provenance0, []));
          (series2, provenance2) =
             (if needs_fallback series1
              then (generate_synthetic_timeseries E date_from date_to 12 100,
                    provenance1 @ [''synthetic: seasonal baseline (no/flat data)''])
              else (series1, provenance1))
      in (to_monthly_df series2, provenance2, warnings1))"

section \<open>Forecasters\<close>

text \<open>
  A forecaster returns the mean series, the frame of lower and upper values on the
  same index, and the name of the method, or raises. The three forecasters of the
  module build their index with \<^verbatim>\<open>_make_future_month_index\<close> and their bounds by
  arithmetic on the mean, so their frames are indexed by dates and hold numbers
  (\<open>fc\<close>); the frames of the SARIMAX forecaster are those of statsmodels (\<open>sm_fc\<close>).
\<close>

type_synonym fc = "series \<times> conf_frame \<times> string"

type_synonym sm_fc = "fseries \<times> fconf \<times> string"

definition mean_of :: "real list \<Rightarrow> real" where
  "mean_of vs = sum_list vs / real (length vs)"

text \<open>
  \<^verbatim>\<open>Series.std(ddof=1)\<close>. pandas returns NaN exactly when there are fewer than two
  values; \<open>std_isnan\<close> is that test, and \<open>std_ddof1\<close> is the value otherwise.
\<close>

definition std_isnan :: "real list \<Rightarrow> bool" where
  "std_isnan vs = (length vs < 2)"

definition std_ddof1 :: "real list \<Rightarrow> real" where
  "std_ddof1 vs = sqrt (sum_list (map (\<lambda>v. (v - mean_of vs)\<^sup>2) vs) / (real (length vs) - 1))"

text \<open>\<^verbatim>\<open>Series.iloc[i]\<close>: a negative position counts from the end.\<close>

definition iloc :: "real list \<Rightarrow> int \<Rightarrow> error + real" where
  "iloc vs i =
     (let n = int (length vs); j = (if i < 0 then n + i else i)
      in if 0 \<le> j \<and> j < n then Inr (vs ! nat j) else Inl IndexError)"

text \<open>Collecting the results of a loop body that may raise.\<close>

fun collect :: "(error + 'a) list \<Rightarrow> error + 'a list" where
  "collect [] = Inr []"
| "collect (x # xs) =
     (case x of Inl e \<Rightarrow> Inl e
      | Inr v \<Rightarrow> (case collect xs of Inl e \<Rightarrow> Inl e | Inr vs \<Rightarrow> Inr (v # vs)))"

definition band_frame :: "series \<Rightarrow> real \<Rightarrow> conf_frame" where
  "band_frame mean band = map (\<lambda>(d, m). (d, m - band, m + band)) mean"

definition sarimax_forecast :: "env \<Rightarrow> series \<Rightarrow> int \<Rightarrow> error + sm_fc" where
  "sarimax_forecast E y steps =
     (if \<not> HAS_SM E then Inl (RuntimeError ''statsmodels unavailable'')
      else if length y < 24 \<or> is_flat (map snd y)
      then Inl (RuntimeError ''series too short/flat for SARIMAX'')
      else (case SARIMAX_fit E y steps of
              Inl e \<Rightarrow> Inl e
            | Inr (mean, conf) \<Rightarrow> Inr (mean, conf, ''sarimax'')))"

text \<open>\<^verbatim>\<open>range(steps)\<close> is empty for a number of steps below 1.\<close>

definition naive_seasonal_forecast :: "series \<Rightarrow> int \<Rightarrow> error + fc" where
  "naive_seasonal_forecast y steps =
     (if length y < 12 then Inl (RuntimeError ''series too short for seasonal naive'')
      else
        let period = 12;
            hist = map snd y
        in case collect (map (\<lambda>i. iloc hist (- int period + int (i mod period))) [0..<nat steps]) of
             Inl e \<Rightarrow> Inl e
           | Inr future_vals \<Rightarrow>
               let mean = zip (make_future_month_index (fst (last y)) steps) future_vals;
                   resids = map (\<lambda>(a, b). a - b) (zip (drop period hist) hist);
                   sd = (if length resids \<ge> 3 then std_ddof1 resids else std_ddof1 hist);
                   band = 128 / 100 * sd
               in Inr (mean, band_frame mean band, ''naive_seasonal''))"

definition moving_avg_forecast :: "series \<Rightarrow> int \<Rightarrow> error + fc" where
  "moving_avg_forecast y steps =
     (if length y < 2 then Inl (RuntimeError ''series too short for moving average'')
      else
        let vals = map snd y;
            w = min 6 (length y);
            tail_w = drop (length vals - w) vals;
            avg = mean_of tail_w;
            mean = zip (make_future_month_index (fst (last y)) steps) (replicate (nat steps) avg);
            src = (if w \<ge> 3 then tail_w else vals);
            band = 164 / 100 * (if \<not> std_isnan src then std_ddof1 src else 15 / 100 * (avg + 1))
        in Inr (mean, band_frame mean band, ''moving_avg''))"

text \<open>
  The last resort inside \<^verbatim>\<open>forecast_monthly\<close>: the last value, multiplied step by step
  by a small seasonal factor.
\<close>

fun synth_loop :: "real \<Rightarrow> nat list \<Rightarrow> real list" where
  "synth_loop cur [] = []"
| "synth_loop cur (i # is) =
     (let cur' = cur * (1 + 2 / 100 * sin (real (i mod 12) / 12 * 2 * pi))
      in cur' # synth_loop cur' is)"

definition synthetic_extension :: "env \<Rightarrow> series \<Rightarrow> string \<Rightarrow> int \<Rightarrow> error + fc" where
  "synthetic_extension E y date_from horizon_months =
     (let base_start = (if y \<noteq> [] then snd (last y) else 100);
          synth_out = synth_loop base_start [0..<nat horizon_months]
      in case (if y \<noteq> [] then Inr (fst (last y)) else Timestamp E date_from) of
           Inl e \<Rightarrow> Inl e
         | Inr anchor \<Rightarrow>
             let idx = make_future_month_index anchor horizon_months;
                 mean = zip idx synth_out;
                 band = max (2 / 10 * base_start) 10
             in Inr (mean, band_frame mean band, ''synthetic''))"

section \<open>The main entry: \<^verbatim>\<open>forecast_monthly\<close>\<close>

record forecast_point =
  fp_date :: date
  yhat :: real
  yhat_lower :: real
  yhat_upper :: real

text \<open>The field \<^verbatim>\<open>method\<close> of the result is \<open>method_used\<close> here.\<close>

record forecast_result =
  history :: series
  forecast :: "forecast_point list"
  method_used :: string
  provenance :: "string list"
  warnings :: "string list"

text \<open>
  The variables \<^verbatim>\<open>mean\<close> and \<^verbatim>\<open>conf\<close> of \<^verbatim>\<open>forecast_monthly\<close> hold the frames of
  whichever forecaster succeeded. A frame of the module's own forecasters is, as a
  frame of that kind, labelled by its dates and holds its numbers.
\<close>

definition as_frames :: "fc \<Rightarrow> sm_fc" where
  "as_frames r =
     (case r of (mean, conf, m) \<Rightarrow>
        (map (\<lambda>(d, v). (Month d, v)) mean, map (\<lambda>(d, lo, hi). (Month d, Val lo, Val hi)) conf, m))"

text \<open>
  Step 2 of \<^verbatim>\<open>forecast_monthly\<close>: SARIMAX, then seasonal naive, then moving average,
  each tried only if the ones before raised; then the synthetic extension, which adds
  a warning. The last component is the list of warnings added.
\<close>

definition choose_method :: "env \<Rightarrow> series \<Rightarrow> string \<Rightarrow> int \<Rightarrow> error + (sm_fc \<times> string list)" where
  "choose_method E y date_from horizon_months =
     (case sarimax_forecast E y horizon_months of
        Inr r \<Rightarrow> Inr (r, [])
      | Inl e1 \<Rightarrow>
     (case naive_seasonal_forecast y horizon_months of
        Inr r \<Rightarrow> Inr (as_frames r, [])
      | Inl e2 \<Rightarrow>
     (case moving_avg_forecast y horizon_months of
        Inr r \<Rightarrow> Inr (as_frames r, [])
      | Inl e3 \<Rightarrow>
     (case synthetic_extension E y date_from horizon_months of
        Inr r \<Rightarrow> Inr (as_frames r,
                      [''Forecast produced from synthetic extension (no usable model).''])
      | Inl e \<Rightarrow> Inl e))))"

text \<open>
  \<^verbatim>\<open>float(max(0.0, lo))\<close>: Python's \<^verbatim>\<open>max\<close> keeps its first argument unless a later
  one compares greater, and no comparison with NaN is true, so a NaN bound gives 0.
\<close>

fun clamp0 :: "bound \<Rightarrow> real" where
  "clamp0 (Val x) = max 0 x"
| "clamp0 NaN = 0"

text \<open>
  Step 3: one point for every row of the mean; \<^verbatim>\<open>conf.loc[d, ...]\<close> looks the bounds up
  by label and raises when the label is missing; \<^verbatim>\<open>d.strftime\<close> raises when the label
  is an integer.
\<close>

fun format_forecast :: "fseries \<Rightarrow> fconf \<Rightarrow> error + forecast_point list" where
  "format_forecast [] conf = Inr []"
| "format_forecast ((d, v) # mean) conf =
     (case map_of conf d of
        None \<Rightarrow> Inl KeyError
      | Some (lo, hi) \<Rightarrow>
          (case d of
             Position i \<Rightarrow> Inl AttributeError
           | Month t \<Rightarrow>
               (case format_forecast mean conf of
                  Inl e \<Rightarrow> Inl e
                | Inr ps \<Rightarrow>
                    Inr (\<lparr>fp_date = t, yhat = v, yhat_lower = clamp0 lo, yhat_upper = clamp0 hi\<rparr>
                         # ps))))"

text \<open>
  Step 1: the history with its provenance and warnings; when it is empty, the normalized
  synthetic baseline instead, with one more provenance entry and one more warning.
\<close>

definition prepare_history ::
  "env \<Rightarrow> string \<Rightarrow> string \<Rightarrow> string \<Rightarrow> string \<Rightarrow> series \<times> string list \<times> string list" where
  "prepare_history E disease region date_from date_to =
     (let (hist0, provenance0, warnings0) = get_monthly_history E disease region date_from date_to
      in if hist0 = []
         then (to_monthly_df (generate_synthetic_timeseries E date_from date_to 12 100),
               provenance0 @ [''synthetic: seasonal baseline (history empty)''],
               warnings0 @ [''Empty history; using synthetic baseline.''])
         else (hist0, provenance0, warnings0))"

definition forecast_monthly ::
  "env \<Rightarrow> string \<Rightarrow> string \<Rightarrow> string \<Rightarrow> string \<Rightarrow> int \<Rightarrow> error + forecast_result" where
  "forecast_monthly E disease region date_from date_to horizon_months =
     (let (y, provenance1, warnings1) = prepare_history E disease region date_from date_to
      in case choose_method E y date_from horizon_months of
           Inl e \<Rightarrow> Inl e
         | Inr ((mean, conf, meth), added) \<Rightarrow>
             (case format_forecast mean conf of
                Inl e \<Rightarrow> Inl e
              | Inr fcst \<Rightarrow>
                  Inr \<lparr>history = y, forecast = fcst, method_used = meth,
                       provenance = provenance1, warnings = warnings1 @ added\<rparr>))"

section \<open>Specification-level notions\<close>

text \<open>
  The Monthly Series Normalizer in the words of its description: a series counts as
  daily when it has at least 28 rows and more than 5 distinct days of the month; a
  daily series yields every calendar month from its first to its last, the other
  series yield the months that occur; every month carries the sum of its values.
\<close>

definition present_months :: "series \<Rightarrow> int set" where
  "present_months df = (\<lambda>r. mon (fst r)) ` set df"

definition spec_is_daily :: "series \<Rightarrow> bool" where
  "spec_is_daily df \<longleftrightarrow> 28 \<le> length df \<and> 5 < card ((\<lambda>r. day (fst r)) ` set df)"

definition spec_months :: "series \<Rightarrow> int list" where
  "spec_months df =
     (if df = [] then []
      else if spec_is_daily df then [Min (present_months df) .. Max (present_months df)]
      else sorted_list_of_set (present_months df))"

definition spec_normalize :: "series \<Rightarrow> series" where
  "spec_normalize df = map (\<lambda>k. (Date k 1, month_total df k)) (spec_months df)"

text \<open>A monthly, deduplicated series in index order.\<close>

definition monthly_normal :: "series \<Rightarrow> bool" where
  "monthly_normal ys \<longleftrightarrow>
     sorted (map (\<lambda>r. mon (fst r)) ys) \<and> distinct (map (\<lambda>r. mon (fst r)) ys)
     \<and> list_all (\<lambda>r. day (fst r) = 1) ys"

text \<open>
  Daily observations of 10 on every day of January and of February 2021: they sum to
  310 and to 280.
\<close>

definition jan2021_feb2021_daily :: series where
  "jan2021_feb2021_daily =
     map (\<lambda>d. (ymd 2021 1 d, 10)) [1..<32] @ map (\<lambda>d. (ymd 2021 2 d, 10)) [1..<29]"

text \<open>The standard deviation used by the seasonal-naive forecaster, as the code computes it.\<close>

definition seasonal_sd :: "real list \<Rightarrow> real" where
  "seasonal_sd hist =
     (let resids = map (\<lambda>(a, b). a - b) (zip (drop 12 hist) hist)
      in if 3 \<le> length resids then std_ddof1 resids else std_ddof1 hist)"

text \<open>
  The Seasonal-Naive Repeater in the words of its description. Step \<open>i\<close> of the horizon
  falls in the month \<open>i + 1\<close> after the last observed one and repeats the value at
  position \<open>i mod 12\<close> of the last twelve observations; the 12-lag residuals are the
  differences between each observation and the one twelve positions earlier; the
  standard deviation is that of the residuals, or of the raw series when there are
  fewer than three residuals.
\<close>

definition lag12_residuals :: "real list \<Rightarrow> real list" where
  "lag12_residuals hist = map (\<lambda>j. hist ! (j + 12) - hist ! j) [0..<length hist - 12]"

definition spec_seasonal_sd :: "real list \<Rightarrow> real" where
  "spec_seasonal_sd hist =
     (if 3 \<le> length (lag12_residuals hist) then std_ddof1 (lag12_residuals hist)
      else std_ddof1 hist)"

definition spec_seasonal_mean :: "series \<Rightarrow> nat \<Rightarrow> series" where
  "spec_seasonal_mean y steps =
     map (\<lambda>i. (Date (mon (fst (last y)) + 1 + int i) 1, snd (y ! (length y - 12 + i mod 12))))
       [0..<steps]"

text \<open>A history without gaps: every row is one month after the row before.\<close>

definition consecutive_months :: "series \<Rightarrow> bool" where
  "consecutive_months y \<longleftrightarrow>
     map (\<lambda>r. mon (fst r)) y = map (\<lambda>j. mon (fst (hd y)) + int j) [0..<length y]"

definition value_in_month :: "series \<Rightarrow> int \<Rightarrow> real option" where
  "value_in_month y k = map_of (map (\<lambda>r. (mon (fst r), snd r)) y) k"

text \<open>The twelve months of 2021 with the values 10, 20, ..., 120.\<close>

definition ramp12 :: series where
  "ramp12 =
     [(ymd 2021 1 1, 10), (ymd 2021 2 1, 20), (ymd 2021 3 1, 30), (ymd 2021 4 1, 40),
      (ymd 2021 5 1, 50), (ymd 2021 6 1, 60), (ymd 2021 7 1, 70), (ymd 2021 8 1, 80),
      (ymd 2021 9 1, 90), (ymd 2021 10 1, 100), (ymd 2021 11 1, 110), (ymd 2021 12 1, 120)]"

section \<open>Contracts, shapes and test data\<close>

text \<open>
  The first key of a list for which the local adapter yields a series that is not empty.
\<close>

definition first_nonempty_key :: "env \<Rightarrow> string \<Rightarrow> string \<Rightarrow> string \<Rightarrow> string list \<Rightarrow> string option" where
  "first_nonempty_key E disease_l date_from date_to keys =
     find (\<lambda>r. try_fetch_local E disease_l r date_from date_to \<noteq> []) keys"

text \<open>
  The half-width of the band of the moving-average forecaster, as the code computes it.
\<close>

definition ma_band :: "series \<Rightarrow> real" where
  "ma_band y =
     (let vals = map snd y;
          w = min 6 (length y);
          tail_w = drop (length vals - w) vals;
          avg = mean_of tail_w;
          src = (if w \<ge> 3 then tail_w else vals)
      in 164 / 100 * (if \<not> std_isnan src then std_ddof1 src else 15 / 100 * (avg + 1)))"

text \<open>
  The mean of the last \<open>min 6 n\<close> values: the flat forecast of the moving-average forecaster.
\<close>

definition ma_avg :: "series \<Rightarrow> real" where
  "ma_avg y = mean_of (drop (length y - min 6 (length y)) (map snd y))"


definition sarimax_index :: "env \<Rightarrow> bool" where
  "sarimax_index E \<longleftrightarrow>
     (\<forall>y steps mean conf. SARIMAX_fit E y steps = Inr (mean, conf) \<longrightarrow>
        map fst mean = map Month (make_future_month_index (fst (last y)) steps))"

definition sarimax_brackets :: "env \<Rightarrow> bool" where
  "sarimax_brackets E \<longleftrightarrow>
     (\<forall>y steps mean conf d v lo hi.
        SARIMAX_fit E y steps = Inr (mean, conf) \<and> (d, v) \<in> set mean
        \<and> map_of conf d = Some (lo, hi) \<longrightarrow>
        (\<exists>a b. lo = Val a \<and> hi = Val b \<and> a \<le> v \<and> v \<le> b))"

text \<open>
  What the forecasters other than SARIMAX return: a mean on the future month index of
  an anchor date, and bounds at a fixed non-negative distance below and above it.
\<close>

definition banded_on :: "date \<Rightarrow> int \<Rightarrow> fc \<Rightarrow> bool" where
  "banded_on a h r \<longleftrightarrow>
     (case r of (mean, conf, m) \<Rightarrow>
        map fst mean = make_future_month_index a h
        \<and> (\<exists>b\<ge>0. conf = band_frame mean b))"

text \<open>
  One point of the response: the mean as it is, each bound replaced by 0 when negative
  or NaN.
\<close>

definition clamp_point :: "fconf \<Rightarrow> label \<times> real \<Rightarrow> forecast_point" where
  "clamp_point conf r =
     \<lparr>fp_date = the_month (fst r), yhat = snd r,
      yhat_lower = clamp0 (fst (the (map_of conf (fst r)))),
      yhat_upper = clamp0 (snd (the (map_of conf (fst r))))\<rparr>"

text \<open>
  A test environment: the live source is unreachable, the local adapter and the
  generator return given series, statsmodels (when present) continues the last value
  on the months that follow the history with a band of 1 (\<open>dated_fit\<close>), and one date
  text parses.
\<close>

definition dated_fit :: "series \<Rightarrow> int \<Rightarrow> error + (fseries \<times> fconf)" where
  "dated_fit y steps =
     (let idx = map Month (make_future_month_index (fst (last y)) steps);
          v = snd (last y)
      in Inr (map (\<lambda>l. (l, v)) idx, map (\<lambda>l. (l, Val (v - 1), Val (v + 1))) idx))"

definition demo_env :: "bool \<Rightarrow> (string \<Rightarrow> series) \<Rightarrow> series \<Rightarrow> env" where
  "demo_env has_sm local synth =
     \<lparr>HAS_SM = has_sm,
      SARIMAX_fit = dated_fit,
      to_iso3 = (\<lambda>s. if s = ''Sri Lanka'' then Inr ''LKA'' else Inl (External ''unknown country'')),
      fetch_covid_timeseries = (\<lambda>region date_from date_to. Inl (External ''connection refused'')),
      fetch_local_timeseries = (\<lambda>disease r date_from date_to. Inr (local r)),
      generate_synthetic_timeseries = (\<lambda>date_from date_to points start_value. synth),
      Timestamp = (\<lambda>s. if s = ''2021-01-01'' then Inr (ymd 2021 1 1)
                        else Inl (External ''unparsable date''))\<rparr>"

text \<open>
  The same environment with statsmodels present and a given behaviour of the fit.
\<close>

definition sm_env ::
  "(series \<Rightarrow> int \<Rightarrow> error + (fseries \<times> fconf)) \<Rightarrow> (string \<Rightarrow> series) \<Rightarrow> env" where
  "sm_env fit local = (demo_env True local [])\<lparr>SARIMAX_fit := fit\<rparr>"


definition nan_band_fit :: "series \<Rightarrow> int \<Rightarrow> error + (fseries \<times> fconf)" where
  "nan_band_fit y steps =
     (let idx = map Month (make_future_month_index (fst (last y)) steps);
          v = snd (last y)
      in Inr (map (\<lambda>l. (l, v)) idx, map (\<lambda>l. (l, NaN, NaN)) idx))"

text \<open>
  Three months of negative values, as corrections of case counts produce them.
\<close>

definition neg3 :: series where
  "neg3 = [(ymd 2021 1 1, -12), (ymd 2021 2 1, -10), (ymd 2021 3 1, -8)]"

text \<open>
  Two years of monthly values 200, 201, ..., 223 from January 2021, and the same values
  with the last month moved from December 2022 to January 2023, which leaves a gap.
\<close>

definition hist24 :: series where
  "hist24 = map (\<lambda>i. (Date (mon (ymd 2021 1 1) + int i) 1, 200 + real i)) [0..<24]"


text \<open>
  Twelve monthly values 10, 20, ..., 120 of which the first eleven are the months
  January to November 2021 and the last is January 2022: December 2021 is missing.
\<close>

definition gap12 :: series where
  "gap12 =
     [(ymd 2021 1 1, 10), (ymd 2021 2 1, 20), (ymd 2021 3 1, 30), (ymd 2021 4 1, 40),
      (ymd 2021 5 1, 50), (ymd 2021 6 1, 60), (ymd 2021 7 1, 70), (ymd 2021 8 1, 80),
      (ymd 2021 9 1, 90), (ymd 2021 10 1, 100), (ymd 2021 11 1, 110), (ymd 2022 1 1, 120)]"

text \<open>
  A local dataset that knows one region key only.
\<close>

definition lka_only :: "series \<Rightarrow> string \<Rightarrow> series" where
  "lka_only s r = (if r = ''LKA'' then s else [])"

text \<open>
  Modelled from the spec: \<^verbatim>\<open>generate_synthetic_timeseries\<close> of the module \<^verbatim>\<open>timeseries\<close>,
  which is not among the sources. The description has it generate a deterministic
  seasonal baseline of \<open>points\<close> observations, a sinusoid around the start value,
  anchored to the requested date range; here one observation per month from the
  start of the range.
\<close>

definition synthetic_baseline :: "date \<Rightarrow> nat \<Rightarrow> real \<Rightarrow> series" where
  "synthetic_baseline start points start_value =
     map (\<lambda>i. (Date (mon start + int i) 1,
                start_value * (1 + 1 / 10 * sin (2 * pi * real i / 12))))
       [0..<points]"

text \<open>
  Three months of usable local data, and a single observation, which is not usable.
\<close>

definition ok3 :: series where
  "ok3 = [(ymd 2021 1 1, 5), (ymd 2021 2 1, 9), (ymd 2021 3 1, 7)]"

definition flat1 :: series where
  "flat1 = [(ymd 2021 1 1, 5)]"

text \<open>
  A local dataset without any series.
\<close>

definition no_local :: "string \<Rightarrow> series" where
  "no_local r = []"

text \<open>
  A local dataset with one series under the country name and one under the ISO3 code.
\<close>

definition local_two :: "series \<Rightarrow> series \<Rightarrow> string \<Rightarrow> series" where
  "local_two a b r = (if r = ''Sri Lanka'' then a else if r = ''LKA'' then b else [])"

text \<open>
  The method and the warnings of a returned result.
\<close>

definition result_method :: "error + forecast_result \<Rightarrow> string option" where
  "result_method x = (case x of Inr r \<Rightarrow> Some (method_used r) | Inl e \<Rightarrow> None)"

definition result_warnings :: "error + forecast_result \<Rightarrow> string list option" where
  "result_warnings x = (case x of Inr r \<Rightarrow> Some (warnings r) | Inl e \<Rightarrow> None)"

section \<open>Dates\<close>

lemma ymd_fields:
  assumes "1 \<le> m" "m \<le> 12"
  shows "year_of (ymd y m d) = y \<and> month_of (ymd y m d) = m \<and> day (ymd y m d) = d"
proof -
  have "(12 * y + int m - 1) div 12 = y" using assms by linarith
  moreover have "(12 * y + int m - 1) mod 12 = int m - 1" using assms by presburger
  ultimately show ?thesis using assms by (simp add: year_of_def month_of_def ymd_def)
qed

lemma future_index_next_month:
  "make_future_month_index (ymd 2021 12 15) 2 = [ymd 2022 1 1, ymd 2022 2 1]"
  by (simp add: make_future_month_index_def ymd_def numeral_2_eq_2)

section \<open>Properties of the normalizer\<close>

lemma month_total_sort: "month_total (sort_by_date df) k = month_total df k"
proof -
  have "mset (filter (\<lambda>r. mon (fst r) = k) (sort_by_date df)) = mset (filter (\<lambda>r. mon (fst r) = k) df)"
    by (simp add: sort_by_date_def)
  then have "mset (map snd (filter (\<lambda>r. mon (fst r) = k) (sort_by_date df)))
           = mset (map snd (filter (\<lambda>r. mon (fst r) = k) df))"
    by (metis mset_map)
  then show ?thesis
    unfolding month_total_def by (metis sum_mset_sum_list)
qed

lemma set_sort_by_date: "set (sort_by_date df) = set df"
  by (simp add: sort_by_date_def)

lemma length_sort_by_date: "length (sort_by_date df) = length df"
  by (simp add: sort_by_date_def)

lemma sorted_mons_sort_by_date: "sorted (map (\<lambda>r. mon (fst r)) (sort_by_date df))"
proof -
  have "sorted (map (\<lambda>r. date_key (fst r)) (sort_by_date df))"
    by (simp add: sort_by_date_def)
  then have "sorted_wrt (\<lambda>x y. date_key (fst x) \<le> date_key (fst y)) (sort_by_date df)"
    by (simp add: sorted_map)
  then have "sorted_wrt (\<lambda>x y. mon (fst x) \<le> mon (fst y)) (sort_by_date df)"
    by (rule sorted_wrt_mono_rel[rotated]) (auto simp: date_key_def less_eq_prod_def)
  then show ?thesis by (simp add: sorted_map)
qed

lemma sort_by_date_rows:
  assumes "sorted ks"
  shows "sort_by_date (map (\<lambda>k. (Date k 1, f k)) ks) = map (\<lambda>k. (Date k 1, f k)) ks"
proof -
  have "sorted_wrt (\<lambda>x y. (x, 1::nat) \<le> (y, 1)) ks"
    using assms by (rule sorted_wrt_mono_rel[rotated]) (auto simp: less_eq_prod_def)
  then have "sorted (map (\<lambda>r. date_key (fst r)) (map (\<lambda>k. (Date k 1, f k)) ks))"
    by (simp add: sorted_map o_def date_key_def sorted_wrt_map)
  then show ?thesis unfolding sort_by_date_def by (rule sort_key_id_if_sorted)
qed

lemma is_daily_iff: "is_daily df \<longleftrightarrow> spec_is_daily df"
  by (simp add: is_daily_def spec_is_daily_def length_remdups_card_conv)

lemma is_daily_sort: "is_daily (sort_by_date df) = is_daily df"
  by (simp add: is_daily_iff spec_is_daily_def set_sort_by_date length_sort_by_date)

lemma hd_sorted_Min:
  assumes "sorted ks" "ks \<noteq> []" shows "hd ks = Min (set ks)"
  using assms by (cases ks) (auto intro!: Min_eqI[symmetric])

lemma last_sorted_Max:
  assumes "sorted ks" "ks \<noteq> []" shows "last ks = Max (set ks)"
proof -
  have "x \<le> last ks" if "x \<in> set ks" for x
  proof -
    from that obtain i where i: "i < length ks" "ks ! i = x" by (auto simp: in_set_conv_nth)
    then have "ks ! i \<le> ks ! (length ks - 1)"
      using assms(1) by (intro sorted_nth_mono) auto
    then show ?thesis using i assms(2) by (simp add: last_conv_nth)
  qed
  then show ?thesis using assms by (auto intro!: Max_eqI[symmetric])
qed

lemma resample_sorted:
  assumes "df \<noteq> []"
  shows "resample_MS_sum (sort_by_date df)
         = map (\<lambda>k. (Date k 1, month_total df k)) [Min (present_months df) .. Max (present_months df)]"
proof -
  let ?s = "sort_by_date df"
  let ?ks = "map (\<lambda>r. mon (fst r)) ?s"
  have ne: "?s \<noteq> []" using assms by (metis length_sort_by_date length_0_conv)
  have s: "sorted ?ks" by (rule sorted_mons_sort_by_date)
  have "mon (fst (hd ?s)) = hd ?ks" using ne by (simp add: hd_map)
  also have "\<dots> = Min (set ?ks)" using s ne by (intro hd_sorted_Min) auto
  finally have a: "mon (fst (hd ?s)) = Min (present_months df)"
    by (simp add: set_sort_by_date present_months_def)
  have "mon (fst (last ?s)) = last ?ks" using ne by (simp add: last_map)
  also have "\<dots> = Max (set ?ks)" using s ne by (intro last_sorted_Max) auto
  finally have b: "mon (fst (last ?s)) = Max (present_months df)"
    by (simp add: set_sort_by_date present_months_def)
  show ?thesis
    unfolding resample_MS_sum_def a b by (simp add: month_total_sort)
qed

lemma groupby_sorted:
  "groupby_month_sum (sort_by_date df)
     = map (\<lambda>k. (Date k 1, month_total df k)) (sorted_list_of_set (present_months df))"
proof -
  have "sort (remdups (map (\<lambda>r. mon (fst r)) (sort_by_date df)))
        = sorted_list_of_set (set (map (\<lambda>r. mon (fst r)) (sort_by_date df)))"
    by (simp only: sorted_list_of_set_sort_remdups)
  then show ?thesis
    unfolding groupby_month_sum_def
    by (simp add: month_total_sort set_sort_by_date present_months_def)
qed

lemma sorted_spec_months: "sorted (spec_months df)"
  by (simp add: spec_months_def)

lemma distinct_spec_months: "distinct (spec_months df)"
  by (simp add: spec_months_def)

lemma to_monthly_df_rows: "to_monthly_df df = spec_normalize df"
proof (cases "df = []")
  case True
  then show ?thesis by (simp add: to_monthly_df_def spec_months_def spec_normalize_def)
next
  case False
  have id: "sort_by_date (spec_normalize df) = spec_normalize df"
    unfolding spec_normalize_def by (rule sort_by_date_rows) (rule sorted_spec_months)
  have "(if is_daily (sort_by_date df) then resample_MS_sum (sort_by_date df)
         else groupby_month_sum (sort_by_date df)) = spec_normalize df"
    using False is_daily_iff[of df]
    by (simp add: is_daily_sort resample_sorted groupby_sorted spec_months_def
        spec_normalize_def)
  then show ?thesis using False id
    by (simp add: to_monthly_df_def Let_def)
qed

lemma filter_distinct_key:
  assumes "distinct (map f xs)" "r \<in> set xs"
  shows "filter (\<lambda>x. f x = f r) xs = [r]"
  using assms
proof (induction xs)
  case Nil then show ?case by simp
next
  case (Cons a xs)
  show ?case
  proof (cases "a = r")
    case True
    have "filter (\<lambda>x. f x = f r) xs = []"
      using Cons.prems(1) True by (force simp: filter_empty_conv image_iff)
    with True show ?thesis by simp
  next
    case False
    with Cons.prems have "r \<in> set xs" "f a \<noteq> f r" "distinct (map f xs)" by auto
    with Cons.IH show ?thesis by simp
  qed
qed

lemma month_rows_normal:
  assumes "sorted ks" "distinct ks"
  shows "monthly_normal (map (\<lambda>k. (Date k 1, f k)) ks)"
  using assms by (simp add: monthly_normal_def o_def list_all_iff)

lemma to_monthly_df_normal: "monthly_normal (to_monthly_df df)"
  unfolding to_monthly_df_rows spec_normalize_def
  by (rule month_rows_normal) (simp_all add: sorted_spec_months distinct_spec_months)

lemma not_daily_normal:
  assumes "monthly_normal ys" shows "\<not> spec_is_daily ys"
proof -
  have "(\<lambda>r. day (fst r)) ` set ys \<subseteq> {1}"
    using assms by (auto simp: monthly_normal_def list_all_iff)
  then have "card ((\<lambda>r. day (fst r)) ` set ys) \<le> card {1::nat}"
    by (intro card_mono) auto
  then show ?thesis by (simp add: spec_is_daily_def)
qed

lemma to_monthly_df_fixed:
  assumes "monthly_normal ys" shows "to_monthly_df ys = ys"
proof (cases "ys = []")
  case True then show ?thesis by (simp add: to_monthly_df_def)
next
  case False
  let ?ks = "map (\<lambda>r. mon (fst r)) ys"
  have s: "sorted ?ks" and d: "distinct ?ks" and one: "\<forall>r \<in> set ys. day (fst r) = 1"
    using assms by (auto simp: monthly_normal_def list_all_iff)
  have "sorted_list_of_set (set ?ks) = ?ks"
    using s d by (rule sorted_list_of_set.idem_if_sorted_distinct)
  then have om: "spec_months ys = ?ks"
    using False not_daily_normal[OF assms] by (simp add: spec_months_def present_months_def)
  have "map (\<lambda>r. (Date (mon (fst r)) 1, month_total ys (mon (fst r)))) ys = map (\<lambda>r. r) ys"
  proof (rule map_cong[OF refl])
    fix r assume r: "r \<in> set ys"
    have "filter (\<lambda>x. mon (fst x) = mon (fst r)) ys = [r]"
      using d r by (rule filter_distinct_key)
    then have "month_total ys (mon (fst r)) = snd r" by (simp add: month_total_def)
    moreover have "Date (mon (fst r)) 1 = fst r" using one r by (cases "fst r") auto
    ultimately show "(Date (mon (fst r)) 1, month_total ys (mon (fst r))) = r"
      by (simp add: prod_eq_iff)
  qed
  then show ?thesis by (simp add: to_monthly_df_rows spec_normalize_def om o_def)
qed

lemma month_total_nonzero_present:
  assumes "month_total df k \<noteq> 0" shows "k \<in> present_months df"
proof (rule ccontr)
  assume "k \<notin> present_months df"
  then have "filter (\<lambda>r. mon (fst r) = k) df = []"
    by (auto simp: present_months_def filter_empty_conv)
  then show False using assms by (simp add: month_total_def)
qed

lemma two_month_scenario:
  assumes "list_all (\<lambda>r. mon (fst r) = a \<or> mon (fst r) = a + 1) df"
    and "month_total df a = u" "month_total df (a + 1) = v" "u \<noteq> 0" "v \<noteq> 0"
  shows "to_monthly_df df = [(Date a 1, u), (Date (a + 1) 1, v)]"
proof -
  have "a \<in> present_months df" "a + 1 \<in> present_months df"
    using assms by (auto intro: month_total_nonzero_present)
  moreover have "present_months df \<subseteq> {a, a + 1}"
    using assms(1) by (auto simp: present_months_def list_all_iff)
  ultimately have pm: "present_months df = {a, a + 1}" by auto
  then have ne: "df \<noteq> []" by (auto simp: present_months_def)
  have "[a .. a + 1] = [a, a + 1]"
    by (simp add: upto_rec1)
  moreover have "sorted_list_of_set {a, a + 1} = [a, a + 1]"
    by (simp add: sorted_list_of_set_insert_remove insort_is_Cons)
  ultimately have "spec_months df = [a, a + 1]"
    using ne by (simp add: spec_months_def pm)
  then show ?thesis using assms by (simp add: to_monthly_df_rows spec_normalize_def)
qed

lemma month_total_append: "month_total (xs @ ys) k = month_total xs k + month_total ys k"
  by (simp add: month_total_def)

lemma month_total_const_rows:
  "month_total (map (\<lambda>d. (Date m d, c)) ds) k = (if m = k then real (length ds) * c else 0)"
  by (induction ds) (auto simp: month_total_def algebra_simps)

text \<open>
  Claim C5. The normalizer treats its input as daily exactly when it has at least 28
  rows and more than 5 distinct days of the month; a daily input yields every month
  from the first to the last, any other input the months that occur, and in both
  cases a month carries the sum of its values (\<open>spec_normalize\<close>). In particular,
  observations that all lie in January or February 2021 and sum to 310 in January and
  to 280 in February normalize to the two rows 2021-01-01: 310 and 2021-02-01: 280.
\<close>

theorem to_monthly_df_sums_by_month:
  "to_monthly_df df = spec_normalize df
   \<and> (is_daily (sort_by_date df) \<longleftrightarrow> spec_is_daily df)
   \<and> (list_all (\<lambda>r. mon (fst r) = mon (ymd 2021 1 1) \<or> mon (fst r) = mon (ymd 2021 2 1)) df
        \<and> month_total df (mon (ymd 2021 1 1)) = 310
        \<and> month_total df (mon (ymd 2021 2 1)) = 280
      \<longrightarrow> to_monthly_df df = [(ymd 2021 1 1, 310), (ymd 2021 2 1, 280)])"
proof (intro conjI impI)
  show "to_monthly_df df = spec_normalize df" by (rule to_monthly_df_rows)
  show "is_daily (sort_by_date df) \<longleftrightarrow> spec_is_daily df"
    unfolding is_daily_sort by (rule is_daily_iff)
next
  assume a: "list_all (\<lambda>r. mon (fst r) = mon (ymd 2021 1 1) \<or> mon (fst r) = mon (ymd 2021 2 1)) df
        \<and> month_total df (mon (ymd 2021 1 1)) = 310
        \<and> month_total df (mon (ymd 2021 2 1)) = 280"
  have "to_monthly_df df = [(Date 24252 1, 310), (Date (24252 + 1) 1, 280)]"
    using a by (intro two_month_scenario) (simp_all add: ymd_def)
  then show "to_monthly_df df = [(ymd 2021 1 1, 310), (ymd 2021 2 1, 280)]"
    by (simp add: ymd_def)
qed

theorem to_monthly_df_sums_by_month_witness:
  "is_daily (sort_by_date jan2021_feb2021_daily)
   \<and> length jan2021_feb2021_daily = 59
   \<and> to_monthly_df jan2021_feb2021_daily = [(ymd 2021 1 1, 310), (ymd 2021 2 1, 280)]"
proof -
  have 1: "list_all (\<lambda>r. mon (fst r) = mon (ymd 2021 1 1) \<or> mon (fst r) = mon (ymd 2021 2 1))
             jan2021_feb2021_daily"
    by (auto simp: jan2021_feb2021_daily_def ymd_def list_all_iff)
  have 2: "month_total jan2021_feb2021_daily (mon (ymd 2021 1 1)) = 310"
    by (simp add: jan2021_feb2021_daily_def ymd_def month_total_append month_total_const_rows)
  have 3: "month_total jan2021_feb2021_daily (mon (ymd 2021 2 1)) = 280"
    by (simp add: jan2021_feb2021_daily_def ymd_def month_total_append month_total_const_rows)
  have 4: "spec_is_daily jan2021_feb2021_daily"
    unfolding is_daily_iff[symmetric] by code_simp
  have 5: "length jan2021_feb2021_daily = 59"
    by (simp add: jan2021_feb2021_daily_def)
  show ?thesis
    using to_monthly_df_sums_by_month[of jan2021_feb2021_daily] 1 2 3 4 5 by metis
qed

text \<open>
  Claim C8. The normalizer is idempotent: applied to its own output it returns that
  output unchanged. This holds for every input series, so in particular for every
  series that is already monthly and free of duplicate months; the rows of the output
  are read back as observations.
\<close>

theorem to_monthly_df_idempotent: "to_monthly_df (to_monthly_df xs) = to_monthly_df xs"
  by (rule to_monthly_df_fixed) (rule to_monthly_df_normal)

section \<open>Properties of the forecasters\<close>

lemma collect_map_Inr:
  assumes "\<And>x. x \<in> set xs \<Longrightarrow> f x = Inr (g x)"
  shows "collect (map f xs) = Inr (map g xs)"
  using assms by (induction xs) auto

lemma length_future_index [simp]: "length (make_future_month_index a n) = nat n"
  by (simp add: make_future_month_index_def)

lemma distinct_future_index: "distinct (make_future_month_index a n)"
  by (simp add: make_future_month_index_def distinct_map inj_on_def)

lemma iloc_wrap:
  assumes "12 \<le> length vs"
  shows "iloc vs (- int 12 + int (i mod 12)) = Inr (vs ! (length vs - 12 + i mod 12))"
proof -
  have "i mod 12 < 12" by simp
  then have "nat (int (length vs) + (- int 12 + int (i mod 12))) = length vs - 12 + i mod 12"
    using assms by linarith
  moreover have "- int 12 + int (i mod 12) < 0" by simp
  moreover have "0 \<le> int (length vs) + (- int 12 + int (i mod 12))" using assms by linarith
  moreover have "int (length vs) + (- int 12 + int (i mod 12)) < int (length vs)" by simp
  ultimately show ?thesis by (simp add: iloc_def Let_def)
qed

lemma naive_seasonal_eq:
  assumes "12 \<le> length y"
  shows "naive_seasonal_forecast y steps =
     Inr (zip (make_future_month_index (fst (last y)) steps)
              (map (\<lambda>i. map snd y ! (length y - 12 + i mod 12)) [0..<nat steps]),
          band_frame (zip (make_future_month_index (fst (last y)) steps)
              (map (\<lambda>i. map snd y ! (length y - 12 + i mod 12)) [0..<nat steps]))
            (128 / 100 * seasonal_sd (map snd y)),
          ''naive_seasonal'')"
proof -
  have c: "collect (map (\<lambda>i. iloc (map snd y) (- int 12 + int (i mod 12))) [0..<nat steps])
        = Inr (map (\<lambda>i. map snd y ! (length y - 12 + i mod 12)) [0..<nat steps])"
    by (rule collect_map_Inr) (use assms iloc_wrap[of "map snd y"] in simp)
  show ?thesis
    unfolding naive_seasonal_forecast_def Let_def seasonal_sd_def c
    using assms by simp
qed

lemma resids_eq: "map (\<lambda>(a, b). a - b) (zip (drop 12 hist) hist) = lag12_residuals hist"
  unfolding lag12_residuals_def
  by (rule nth_equalityI) (auto simp: add.commute)

lemma seasonal_sd_eq: "seasonal_sd hist = spec_seasonal_sd hist"
  by (simp add: seasonal_sd_def spec_seasonal_sd_def resids_eq Let_def)

lemma seasonal_mean_eq:
  assumes "12 \<le> length y"
  shows "zip (make_future_month_index (fst (last y)) steps)
           (map (\<lambda>i. map snd y ! (length y - 12 + i mod 12)) [0..<nat steps])
         = spec_seasonal_mean y (nat steps)"
proof (rule nth_equalityI)
  show "length (zip (make_future_month_index (fst (last y)) steps)
           (map (\<lambda>i. map snd y ! (length y - 12 + i mod 12)) [0..<nat steps]))
      = length (spec_seasonal_mean y (nat steps))"
    by (simp add: spec_seasonal_mean_def)
next
  fix i assume "i < length (zip (make_future_month_index (fst (last y)) steps)
           (map (\<lambda>i. map snd y ! (length y - 12 + i mod 12)) [0..<nat steps]))"
  then have i: "i < nat steps" by simp
  have "i mod 12 < 12" by simp
  then have "length y - 12 + i mod 12 < length y" using assms by linarith
  then show "zip (make_future_month_index (fst (last y)) steps)
           (map (\<lambda>i. map snd y ! (length y - 12 + i mod 12)) [0..<nat steps]) ! i
      = spec_seasonal_mean y (nat steps) ! i"
    using i by (simp add: spec_seasonal_mean_def make_future_month_index_def)
qed

lemma map_of_key_nth:
  assumes "distinct (map f xs)" "j < length xs"
  shows "map_of (map (\<lambda>r. (f r, g r)) xs) (f (xs ! j)) = Some (g (xs ! j))"
proof -
  have "distinct (map fst (map (\<lambda>r. (f r, g r)) xs))" using assms(1) by (simp add: o_def)
  moreover have "(f (xs ! j), g (xs ! j)) \<in> set (map (\<lambda>r. (f r, g r)) xs)"
    using assms(2) by auto
  ultimately show ?thesis by (rule map_of_is_SomeI)
qed

lemma consecutive_lookup:
  assumes "consecutive_months y" "j < length y"
  shows "value_in_month y (mon (fst (hd y)) + int j) = Some (snd (y ! j))"
proof -
  have m: "map (\<lambda>r. mon (fst r)) y = map (\<lambda>j. mon (fst (hd y)) + int j) [0..<length y]"
    using assms(1) by (simp add: consecutive_months_def)
  have d: "distinct (map (\<lambda>r. mon (fst r)) y)"
    unfolding m by (simp add: distinct_map inj_on_def)
  have "map (\<lambda>r. mon (fst r)) y ! j = mon (fst (hd y)) + int j"
    unfolding m using assms(2) by simp
  then have k: "mon (fst (y ! j)) = mon (fst (hd y)) + int j" using assms(2) by simp
  show ?thesis
    unfolding value_in_month_def k[symmetric] using d assms(2) by (rule map_of_key_nth)
qed

lemma seasonal_twelve_months_before:
  assumes "12 \<le> length y" "consecutive_months y" "i < steps"
  shows "value_in_month y (mon (fst (spec_seasonal_mean y steps ! i)) - 12 * (1 + int (i div 12)))
         = Some (snd (spec_seasonal_mean y steps ! i))"
proof -
  let ?j = "length y - 12 + i mod 12"
  have j: "?j < length y" using assms(1) by (simp add: less_diff_conv2 algebra_simps) 
  have ne: "y \<noteq> []" using assms(1) by auto
  have "mon (fst (last y)) = mon (fst (y ! (length y - 1)))" using ne by (simp add: last_conv_nth)
  also have "\<dots> = map (\<lambda>r. mon (fst r)) y ! (length y - 1)" using ne by simp
  also have "\<dots> = mon (fst (hd y)) + int (length y - 1)"
    using assms(2) ne unfolding consecutive_months_def by simp
  finally have l: "mon (fst (last y)) = mon (fst (hd y)) + int (length y - 1)" .
  have "int i = 12 * int (i div 12) + int (i mod 12)"
    by (metis of_nat_add of_nat_mult of_nat_numeral mult_div_mod_eq)
  then have "mon (fst (last y)) + 1 + int i - 12 * (1 + int (i div 12)) = mon (fst (hd y)) + int ?j"
    using l assms(1) by (simp add: of_nat_diff algebra_simps)
  then show ?thesis
    using assms(3) consecutive_lookup[OF assms(2) j]
    by (simp add: spec_seasonal_mean_def)
qed

lemma naive_seasonal_spec:
  assumes "12 \<le> length y"
  shows "naive_seasonal_forecast y steps =
     Inr (spec_seasonal_mean y (nat steps),
          band_frame (spec_seasonal_mean y (nat steps)) (128 / 100 * spec_seasonal_sd (map snd y)),
          ''naive_seasonal'')"
  unfolding naive_seasonal_eq[OF assms] seasonal_mean_eq[OF assms] seasonal_sd_eq ..

lemma std_ramp: "std_ddof1 (map snd ramp12) = sqrt 1300"
  by (simp add: std_ddof1_def ramp12_def mean_of_def power2_eq_square)

lemma ramp_fc:
  "naive_seasonal_forecast ramp12 3 =
     Inr ([(ymd 2022 1 1, 10), (ymd 2022 2 1, 20), (ymd 2022 3 1, 30)],
          [(ymd 2022 1 1, 10 - 128 / 100 * sqrt 1300, 10 + 128 / 100 * sqrt 1300),
           (ymd 2022 2 1, 20 - 128 / 100 * sqrt 1300, 20 + 128 / 100 * sqrt 1300),
           (ymd 2022 3 1, 30 - 128 / 100 * sqrt 1300, 30 + 128 / 100 * sqrt 1300)],
          ''naive_seasonal'')"
proof -
  have len: "12 \<le> length ramp12" by (simp add: ramp12_def)
  have sd: "spec_seasonal_sd (map snd ramp12) = sqrt 1300"
    by (simp add: spec_seasonal_sd_def lag12_residuals_def std_ramp) (simp add: ramp12_def)
  have mean: "spec_seasonal_mean ramp12 3 = [(ymd 2022 1 1, 10), (ymd 2022 2 1, 20), (ymd 2022 3 1, 30)]"
    by code_simp
  have n: "nat 3 = 3" by simp
  show ?thesis
    unfolding naive_seasonal_spec[OF len] n sd mean by (simp add: band_frame_def)
qed

lemma std_gap: "std_ddof1 (map snd gap12) = sqrt 1300"
  by (simp add: std_ddof1_def gap12_def mean_of_def power2_eq_square)

lemma gap_fc:
  "naive_seasonal_forecast gap12 1 =
     Inr ([(ymd 2022 2 1, 10)],
          [(ymd 2022 2 1, 10 - 128 / 100 * sqrt 1300, 10 + 128 / 100 * sqrt 1300)],
          ''naive_seasonal'')"
proof -
  have len: "12 \<le> length gap12" by (simp add: gap12_def)
  have sd: "spec_seasonal_sd (map snd gap12) = sqrt 1300"
    by (simp add: spec_seasonal_sd_def lag12_residuals_def std_gap) (simp add: gap12_def)
  have mean: "spec_seasonal_mean gap12 1 = [(ymd 2022 2 1, 10)]"
    by code_simp
  have n: "nat 1 = 1" by simp
  show ?thesis
    unfolding naive_seasonal_spec[OF len] n sd mean by (simp add: band_frame_def)
qed

lemma gap12_normal: "to_monthly_df gap12 = gap12"
  by (rule to_monthly_df_fixed) (simp add: monthly_normal_def gap12_def ymd_def)

text \<open>
  Claim C6, as amended. The Seasonal-Naive Repeater applies exactly when the history
  has at least 12 points. Its forecast for step \<open>i\<close> is the value at position \<open>i mod 12\<close>
  of the last twelve observed rows; for a history without gaps that is the value
  observed twelve months (or a multiple of twelve, after wrapping) before the forecast
  month. The bounds are the forecast minus and plus 1.28 times the standard deviation
  of the 12-lag residuals, or of the raw series when fewer than 3 residuals exist. For
  the ramp 10, 20, ..., 120 and a horizon of 3 the means are 10, 20, 30.
\<close>

theorem naive_seasonal_repeater:
  "naive_seasonal_forecast y steps =
     (if length y < 12 then Inl (RuntimeError ''series too short for seasonal naive'')
      else Inr (spec_seasonal_mean y (nat steps),
                band_frame (spec_seasonal_mean y (nat steps))
                  (128 / 100 * spec_seasonal_sd (map snd y)),
                ''naive_seasonal''))
   \<and> (12 \<le> length y \<and> consecutive_months y \<and> i < nat steps \<longrightarrow>
        value_in_month y
            (mon (fst (spec_seasonal_mean y (nat steps) ! i)) - 12 * (1 + int (i div 12)))
          = Some (snd (spec_seasonal_mean y (nat steps) ! i)))
   \<and> naive_seasonal_forecast ramp12 3 =
       Inr ([(ymd 2022 1 1, 10), (ymd 2022 2 1, 20), (ymd 2022 3 1, 30)],
            [(ymd 2022 1 1, 10 - 128 / 100 * sqrt 1300, 10 + 128 / 100 * sqrt 1300),
             (ymd 2022 2 1, 20 - 128 / 100 * sqrt 1300, 20 + 128 / 100 * sqrt 1300),
             (ymd 2022 3 1, 30 - 128 / 100 * sqrt 1300, 30 + 128 / 100 * sqrt 1300)],
            ''naive_seasonal'')"
proof (intro conjI impI)
  show "naive_seasonal_forecast y steps =
     (if length y < 12 then Inl (RuntimeError ''series too short for seasonal naive'')
      else Inr (spec_seasonal_mean y (nat steps),
                band_frame (spec_seasonal_mean y (nat steps))
                  (128 / 100 * spec_seasonal_sd (map snd y)),
                ''naive_seasonal''))"
  proof (cases "length y < 12")
    case True
    then show ?thesis by (simp add: naive_seasonal_forecast_def)
  next
    case False
    then have "12 \<le> length y" by simp
    from naive_seasonal_spec[OF this] False show ?thesis by simp
  qed
next
  assume "12 \<le> length y \<and> consecutive_months y \<and> i < nat steps"
  then show "value_in_month y
            (mon (fst (spec_seasonal_mean y (nat steps) ! i)) - 12 * (1 + int (i div 12)))
          = Some (snd (spec_seasonal_mean y (nat steps) ! i))"
    by (intro seasonal_twelve_months_before) simp_all
next
  show "naive_seasonal_forecast ramp12 3 =
       Inr ([(ymd 2022 1 1, 10), (ymd 2022 2 1, 20), (ymd 2022 3 1, 30)],
            [(ymd 2022 1 1, 10 - 128 / 100 * sqrt 1300, 10 + 128 / 100 * sqrt 1300),
             (ymd 2022 2 1, 20 - 128 / 100 * sqrt 1300, 20 + 128 / 100 * sqrt 1300),
             (ymd 2022 3 1, 30 - 128 / 100 * sqrt 1300, 30 + 128 / 100 * sqrt 1300)],
            ''naive_seasonal'')"
    by (rule ramp_fc)
qed

theorem naive_seasonal_repeater_witness:
  "12 \<le> length ramp12 \<and> consecutive_months ramp12 \<and> (2::nat) < nat 3
   \<and> spec_seasonal_mean ramp12 (nat 3) ! 2 = (ymd 2022 3 1, 30)
   \<and> value_in_month ramp12 (mon (ymd 2022 3 1) - 12) = Some 30"
proof -
  have 1: "12 \<le> length ramp12" by (simp add: ramp12_def)
  have 2: "consecutive_months ramp12" by code_simp
  have n: "nat 3 = 3" by simp
  have 3: "spec_seasonal_mean ramp12 3 ! 2 = (ymd 2022 3 1, 30)" by code_simp
  have "value_in_month ramp12
            (mon (fst (spec_seasonal_mean ramp12 (nat 3) ! 2)) - 12 * (1 + int (2 div 12)))
          = Some (snd (spec_seasonal_mean ramp12 (nat 3) ! 2))"
    using naive_seasonal_repeater[of ramp12 3 2] 1 2 by simp
  then show ?thesis using 1 2 by (simp add: n 3)
qed

text \<open>
  The claim as stated, the value twelve months before the forecast month, fails for a
  history with a gap, which the normalizer leaves as it is: with the months January to
  November 2021 and January 2022, the forecast for February 2022 is the value of
  January 2021, the first of the last twelve rows, and not the value of February 2021.
\<close>

theorem seasonal_gap_counterexample:
  "to_monthly_df gap12 = gap12
   \<and> 12 \<le> length gap12
   \<and> naive_seasonal_forecast gap12 1 =
       Inr ([(ymd 2022 2 1, 10)],
            [(ymd 2022 2 1, 10 - 128 / 100 * sqrt 1300, 10 + 128 / 100 * sqrt 1300)],
            ''naive_seasonal'')
   \<and> value_in_month gap12 (mon (ymd 2022 2 1) - 12) = Some 20
   \<and> value_in_month gap12 (mon (ymd 2021 1 1)) = Some 10"
proof -
  have "value_in_month gap12 (mon (ymd 2022 2 1) - 12) = Some 20"
    by (simp add: value_in_month_def gap12_def ymd_def)
  moreover have "value_in_month gap12 (mon (ymd 2021 1 1)) = Some 10"
    by (simp add: value_in_month_def gap12_def ymd_def)
  moreover have "12 \<le> length gap12" by (simp add: gap12_def)
  ultimately show ?thesis using gap12_normal gap_fc by simp
qed

section \<open>Properties of the resolver and of the selector\<close>

lemma local_loop_find:
  "local_loop E dl df dt rs =
     map_option (\<lambda>r. (try_fetch_local E dl r df dt, r)) (first_nonempty_key E dl df dt rs)"
  by (induction rs) (simp_all add: first_nonempty_key_def Let_def)

lemma history_stages:
  "get_monthly_history E disease region df dt =
     (let dl = strip (lower disease);
          s0 = fst (live_stage E dl region df dt);
          p0 = snd (live_stage E dl region df dt);
          synth = generate_synthetic_timeseries E df dt 12 100
      in if \<not> needs_fallback s0 then (to_monthly_df s0, p0, [])
         else (case first_nonempty_key E dl df dt (tried_regions E region) of
                 Some r \<Rightarrow>
                   if needs_fallback (try_fetch_local E dl r df dt)
                   then (to_monthly_df synth,
                         p0 @ [local_note r, ''synthetic: seasonal baseline (no/flat data)''], [])
                   else (to_monthly_df (try_fetch_local E dl r df dt), p0 @ [local_note r], [])
               | None \<Rightarrow>
                   (to_monthly_df synth, p0 @ [''synthetic: seasonal baseline (no/flat data)''],
                    [''No usable live or local data in the requested window.''])))"
  unfolding get_monthly_history_def local_loop_find
  by (simp add: Let_def split_beta split: option.split)

lemma to_monthly_df_Nil_iff: "to_monthly_df xs = [] \<longleftrightarrow> xs = []"
proof
  assume e: "to_monthly_df xs = []"
  show "xs = []"
  proof (rule ccontr)
    assume ne: "xs \<noteq> []"
    then have pm: "present_months xs \<noteq> {}" "finite (present_months xs)"
      by (auto simp: present_months_def)
    then have "Min (present_months xs) \<le> Max (present_months xs)" by simp
    then have "[Min (present_months xs) .. Max (present_months xs)] \<noteq> []" by (simp add: upto_Nil)
    moreover have "sorted_list_of_set (present_months xs) \<noteq> []" using pm by simp
    ultimately have "spec_months xs \<noteq> []" using ne by (simp add: spec_months_def)
    then show False using e by (simp add: to_monthly_df_rows spec_normalize_def)
  qed
qed (simp add: to_monthly_df_def)

lemma needs_fallback_Nil [simp]: "needs_fallback []"
  by (simp add: needs_fallback_def)

lemma std_ddof1_nonneg: "0 \<le> std_ddof1 vs"
proof (cases "vs = []")
  case True
  then show ?thesis by (simp add: std_ddof1_def)
next
  case False
  have "0 \<le> sum_list (map (\<lambda>v. (v - mean_of vs)\<^sup>2) vs)"
    by (rule sum_list_nonneg) auto
  moreover have "0 \<le> real (length vs) - 1"
    using False by (cases vs) auto
  ultimately show ?thesis
    unfolding std_ddof1_def by (intro real_sqrt_ge_zero divide_nonneg_nonneg)
qed

lemma moving_avg_eq:
  assumes "2 \<le> length y"
  shows "moving_avg_forecast y steps =
     Inr (zip (make_future_month_index (fst (last y)) steps) (replicate (nat steps) (ma_avg y)),
          band_frame (zip (make_future_month_index (fst (last y)) steps)
                          (replicate (nat steps) (ma_avg y)))
            (ma_band y),
          ''moving_avg'')"
  using assms unfolding moving_avg_forecast_def ma_band_def ma_avg_def Let_def
  by simp

lemma ma_band_nonneg:
  assumes "2 \<le> length y" shows "0 \<le> ma_band y"
proof -
  let ?w = "min 6 (length y)"
  let ?src = "if ?w \<ge> 3 then drop (length (map snd y) - ?w) (map snd y) else map snd y"
  have "2 \<le> length ?src" using assms by auto
  then have "\<not> std_isnan ?src" by (simp add: std_isnan_def)
  then have "ma_band y = 164 / 100 * std_ddof1 ?src"
    unfolding ma_band_def Let_def by (simp only: if_True not_False_eq_True)
  then show ?thesis using std_ddof1_nonneg[of ?src] by simp
qed

lemma seasonal_band_nonneg: "0 \<le> 128 / 100 * spec_seasonal_sd hist"
  by (simp add: spec_seasonal_sd_def std_ddof1_nonneg)

lemma length_synth_loop [simp]: "length (synth_loop cur is) = length is"
  by (induction "is" arbitrary: cur) (simp_all add: Let_def)

lemma banded_naive:
  assumes "naive_seasonal_forecast y h = Inr r"
  shows "banded_on (fst (last y)) h r \<and> 12 \<le> length y \<and> snd (snd r) = ''naive_seasonal''"
proof -
  have l: "12 \<le> length y" using assms by (auto simp: naive_seasonal_forecast_def split: if_splits)
  have "map fst (spec_seasonal_mean y (nat h)) = make_future_month_index (fst (last y)) h"
    by (simp add: spec_seasonal_mean_def make_future_month_index_def o_def)
  then show ?thesis
    using assms l seasonal_band_nonneg[of "map snd y"]
    unfolding naive_seasonal_spec[OF l] banded_on_def
    by (auto intro!: exI[of _ "128 / 100 * spec_seasonal_sd (map snd y)"])
qed

lemma banded_moving:
  assumes "moving_avg_forecast y h = Inr r"
  shows "banded_on (fst (last y)) h r \<and> 2 \<le> length y \<and> snd (snd r) = ''moving_avg''"
proof -
  have l: "2 \<le> length y" using assms by (auto simp: moving_avg_forecast_def split: if_splits)
  show ?thesis
    using assms l ma_band_nonneg[OF l]
    unfolding moving_avg_eq[OF l] banded_on_def
    by (auto intro!: exI[of _ "ma_band y"])
qed

lemma banded_synth:
  assumes "synthetic_extension E y df h = Inr r"
  shows "\<exists>a. banded_on a h r \<and> (if y \<noteq> [] then a = fst (last y) else Timestamp E df = Inr a)
          \<and> snd (snd r) = ''synthetic''"
proof -
  obtain a where a: "(if y \<noteq> [] then Inr (fst (last y)) else Timestamp E df) = Inr a"
    using assms unfolding synthetic_extension_def Let_def by (auto split: sum.splits)
  have b: "(0::real) \<le> max (2 / 10 * (if y \<noteq> [] then snd (last y) else 100)) 10" by simp
  have "banded_on a h r \<and> snd (snd r) = ''synthetic''"
    using assms b unfolding synthetic_extension_def Let_def a banded_on_def
    by (auto simp del: max.bounded_iff)
  moreover have "if y \<noteq> [] then a = fst (last y) else Timestamp E df = Inr a"
    using a by (auto split: if_splits)
  ultimately show ?thesis by blast
qed

lemma format_forecast_iff:
  "format_forecast mean conf = Inr ps \<longleftrightarrow>
     list_all (\<lambda>r. is_Month (fst r) \<and> map_of conf (fst r) \<noteq> None) mean
     \<and> ps = map (clamp_point conf) mean"
proof (induction mean arbitrary: ps)
  case Nil
  then show ?case by auto
next
  case (Cons a mean)
  obtain d v where a: "a = (d, v)" by (cases a)
  show ?case
  proof (cases "map_of conf d")
    case None
    then show ?thesis by (simp add: a)
  next
    case (Some lh)
    obtain lo hi where lh: "lh = (lo, hi)" by (cases lh)
    show ?thesis
    proof (cases d)
      case (Position i)
      then show ?thesis using Some lh by (simp add: a)
    next
      case (Month t)
      show ?thesis
      proof (cases "format_forecast mean conf")
        case (Inl e)
        then have "\<not> list_all (\<lambda>r. is_Month (fst r) \<and> map_of conf (fst r) \<noteq> None) mean"
          using Cons.IH[of "map (clamp_point conf) mean"] by auto
        then show ?thesis using Inl Some lh Month by (simp add: a)
      next
        case (Inr qs)
        then have "list_all (\<lambda>r. is_Month (fst r) \<and> map_of conf (fst r) \<noteq> None) mean
                   \<and> qs = map (clamp_point conf) mean"
          using Cons.IH[of qs] by simp
        then show ?thesis using Inr Some lh Month by (auto simp: a clamp_point_def)
      qed
    qed
  qed
qed


lemma map_of_band_frame:
  "map_of (band_frame mean b) d = map_option (\<lambda>m. (m - b, m + b)) (map_of mean d)"
  by (induction mean) (auto simp: band_frame_def)

lemma as_frames_parts:
  "as_frames (mean, conf, m) =
     (map (\<lambda>(d, v). (Month d, v)) mean, map (\<lambda>(d, lo, hi). (Month d, Val lo, Val hi)) conf, m)"
  by (simp add: as_frames_def)

lemma map_of_val_rows:
  "map_of (map (\<lambda>(d, lo, hi). (Month d, Val lo, Val hi)) conf) (Month d)
     = map_option (\<lambda>(lo, hi). (Val lo, Val hi)) (map_of conf d)"
  by (induction conf) auto

text \<open>
  A row of a frame of the module's own forecasters: its label is a month, and the
  interval frame holds the value minus and plus the band under that label.
\<close>

lemma banded_rows:
  assumes "banded_on a h (mean0, conf0, m)"
    and "(mean, conf, m') = as_frames (mean0, conf0, m)"
    and "(l, v) \<in> set mean"
  shows "\<exists>d b. 0 \<le> b \<and> l = Month d \<and> map_of conf l = Some (Val (v - b), Val (v + b))"
proof -
  from assms(1) obtain b where b: "0 \<le> b" "conf0 = band_frame mean0 b"
    and idx: "map fst mean0 = make_future_month_index a h" by (auto simp: banded_on_def)
  have m: "mean = map (\<lambda>(d, v). (Month d, v)) mean0"
    and c: "conf = map (\<lambda>(d, lo, hi). (Month d, Val lo, Val hi)) conf0"
    using assms(2) by (simp_all add: as_frames_parts)
  from assms(3) obtain d where d: "l = Month d" "(d, v) \<in> set mean0"
    unfolding m by auto
  have "distinct (map fst mean0)" unfolding idx by (rule distinct_future_index)
  then have "map_of mean0 d = Some v" using d(2) by (rule map_of_is_SomeI)
  then have "map_of conf l = Some (Val (v - b), Val (v + b))"
    unfolding c d(1) map_of_val_rows b(2) map_of_band_frame by simp
  then show ?thesis using b(1) d(1) by blast
qed

lemma banded_format:
  assumes "banded_on a h (mean0, conf0, m)"
    and "(mean, conf, m') = as_frames (mean0, conf0, m)"
  shows "format_forecast mean conf = Inr (map (clamp_point conf) mean)"
proof -
  have "list_all (\<lambda>r. is_Month (fst r) \<and> map_of conf (fst r) \<noteq> None) mean"
    unfolding list_all_iff
  proof
    fix r assume "r \<in> set mean"
    then have "(fst r, snd r) \<in> set mean" by simp
    from banded_rows[OF assms this]
    show "is_Month (fst r) \<and> map_of conf (fst r) \<noteq> None" by auto
  qed
  then show ?thesis by (simp add: format_forecast_iff)
qed

lemma banded_dates:
  assumes "banded_on a h (mean0, conf0, m)"
    and "(mean, conf, m') = as_frames (mean0, conf0, m)"
  shows "map fst mean = map Month (make_future_month_index a h)"
proof -
  have "map fst mean = map Month (map fst mean0)"
    using assms(2) by (simp add: as_frames_parts o_def split_beta)
  moreover have "map fst mean0 = make_future_month_index a h"
    using assms(1) by (simp add: banded_on_def)
  ultimately show ?thesis by simp
qed

lemma sarimax_forecast_Inr:
  assumes "sarimax_forecast E y h = Inr r"
  shows "\<exists>mean conf. r = (mean, conf, ''sarimax'') \<and> SARIMAX_fit E y h = Inr (mean, conf)
          \<and> HAS_SM E \<and> 24 \<le> length y \<and> \<not> is_flat (map snd y)"
  using assms unfolding sarimax_forecast_def by (auto split: if_splits sum.splits)

lemma moving_avg_Inl: "(\<exists>e. moving_avg_forecast y h = Inl e) \<longleftrightarrow> length y < 2"
  by (auto simp: moving_avg_forecast_def Let_def)

lemma naive_Inl: "(\<exists>e. naive_seasonal_forecast y h = Inl e) \<longleftrightarrow> length y < 12"
  using naive_seasonal_spec[of y h] by (cases "length y < 12") (auto simp: naive_seasonal_forecast_def)

lemma choose_method_cases:
  assumes "choose_method E y df h = Inr (r, added)"
  obtains (sarimax) "sarimax_forecast E y h = Inr r" "added = []"
  | (naive) r0 where "r = as_frames r0" "naive_seasonal_forecast y h = Inr r0" "added = []"
  | (moving) r0 where "r = as_frames r0" "\<exists>e. naive_seasonal_forecast y h = Inl e"
      "moving_avg_forecast y h = Inr r0" "added = []"
  | (synth) r0 where "r = as_frames r0" "\<exists>e. moving_avg_forecast y h = Inl e"
      "synthetic_extension E y df h = Inr r0"
      "added = [''Forecast produced from synthetic extension (no usable model).'']"
  using assms unfolding choose_method_def by (auto split: sum.splits)

lemma as_frames_name:
  assumes "(mean, conf, m) = as_frames r0"
  obtains mean0 conf0 where "r0 = (mean0, conf0, m)" "(mean, conf, m) = as_frames (mean0, conf0, m)"
  using assms by (cases r0) (auto simp: as_frames_parts)

lemma choose_method_sarimax_or_banded:
  assumes "choose_method E y df h = Inr ((mean, conf, m), added)"
  obtains (sarimax) "SARIMAX_fit E y h = Inr (mean, conf)" "24 \<le> length y" "m = ''sarimax''"
      "added = []"
  | (banded) a mean0 conf0 where "(mean, conf, m) = as_frames (mean0, conf0, m)"
      "banded_on a h (mean0, conf0, m)"
      "if y \<noteq> [] then a = fst (last y) else Timestamp E df = Inr a" "m \<noteq> ''sarimax''"
      "m = ''naive_seasonal'' \<and> 12 \<le> length y \<and> added = []
       \<or> m = ''moving_avg'' \<and> 2 \<le> length y \<and> length y < 12 \<and> added = []
       \<or> m = ''synthetic'' \<and> length y < 2
           \<and> added = [''Forecast produced from synthetic extension (no usable model).'']"
  using assms
proof (cases rule: choose_method_cases)
  case sarimax
  from sarimax_forecast_Inr[OF sarimax(1)] sarimax(2) show ?thesis
    by (intro that(1)) auto
next
  case (naive r0)
  from as_frames_name[OF naive(1)] obtain mean0 conf0 where
    r0: "r0 = (mean0, conf0, m)" and fr: "(mean, conf, m) = as_frames (mean0, conf0, m)" by blast
  from banded_naive[OF naive(2)] have b: "banded_on (fst (last y)) h (mean0, conf0, m)"
    and l: "12 \<le> length y" and m: "m = ''naive_seasonal''" by (auto simp: r0)
  have ne: "y \<noteq> []" using l by auto
  show ?thesis
    by (rule that(2)[OF fr b]) (use ne l m naive(3) in simp_all)
next
  case (moving r0)
  from as_frames_name[OF moving(1)] obtain mean0 conf0 where
    r0: "r0 = (mean0, conf0, m)" and fr: "(mean, conf, m) = as_frames (mean0, conf0, m)" by blast
  from banded_moving[OF moving(3)] have b: "banded_on (fst (last y)) h (mean0, conf0, m)"
    and l: "2 \<le> length y" and m: "m = ''moving_avg''" by (auto simp: r0)
  have l2: "length y < 12" using moving(2) naive_Inl by blast
  have ne: "y \<noteq> []" using l by auto
  show ?thesis
    by (rule that(2)[OF fr b]) (use ne l l2 m moving(4) in simp_all)
next
  case (synth r0)
  from as_frames_name[OF synth(1)] obtain mean0 conf0 where
    r0: "r0 = (mean0, conf0, m)" and fr: "(mean, conf, m) = as_frames (mean0, conf0, m)" by blast
  from banded_synth[OF synth(3)] obtain a where b: "banded_on a h (mean0, conf0, m)"
    and a: "if y \<noteq> [] then a = fst (last y) else Timestamp E df = Inr a"
    and m: "m = ''synthetic''" by (auto simp: r0)
  have l: "length y < 2" using synth(2) moving_avg_Inl by blast
  show ?thesis
    by (rule that(2)[OF fr b a]) (use l m synth(4) in simp_all)
qed

lemma forecast_monthly_Inr:
  assumes "forecast_monthly E dis reg df dt h = Inr r"
  shows "\<exists>mean conf added.
           choose_method E (history r) df h = Inr ((mean, conf, method_used r), added)
         \<and> format_forecast mean conf = Inr (forecast r)
         \<and> prepare_history E dis reg df dt = (history r, provenance r, take (length (warnings r) - length added) (warnings r))
         \<and> warnings r = take (length (warnings r) - length added) (warnings r) @ added"
  using assms unfolding forecast_monthly_def
  by (auto simp: Let_def split: prod.splits sum.splits)

lemma forecast_monthly_parts:
  assumes "forecast_monthly E dis reg df dt h = Inr r"
  obtains mean conf added where
    "choose_method E (history r) df h = Inr ((mean, conf, method_used r), added)"
    "list_all (\<lambda>x. is_Month (fst x) \<and> map_of conf (fst x) \<noteq> None) mean"
    "forecast r = map (clamp_point conf) mean"
proof -
  from forecast_monthly_Inr[OF assms] obtain mean conf added where
    "choose_method E (history r) df h = Inr ((mean, conf, method_used r), added)"
    "format_forecast mean conf = Inr (forecast r)" by blast
  then show ?thesis using that by (simp add: format_forecast_iff)
qed

lemma demo_tried: "tried_regions (demo_env b local synth) ''Sri Lanka'' = [''Sri Lanka'', ''LKA'']"
  by (simp add: tried_regions_def region_candidates_def demo_env_def strip_def is_space_def
      ALIAS_TO_ISO3_def lower_def lower_char_def upper_def upper_char_def Let_def)

lemma demo_live: "live_stage (demo_env b local synth) dl region df dt = ([], [])"
  by (simp add: live_stage_def demo_env_def)

lemma demo_try_local: "try_fetch_local (demo_env b local synth) dl r df dt = local r"
  by (simp add: try_fetch_local_def demo_env_def)

lemma demo_synth: "generate_synthetic_timeseries (demo_env b local synth) df dt p s = synth"
  by (simp add: demo_env_def)

lemma sm_tried: "tried_regions (sm_env fit local) ''Sri Lanka'' = [''Sri Lanka'', ''LKA'']"
  by (simp add: tried_regions_def region_candidates_def sm_env_def demo_env_def strip_def
      is_space_def ALIAS_TO_ISO3_def lower_def lower_char_def upper_def upper_char_def Let_def)

lemma sm_live: "live_stage (sm_env fit local) dl region df dt = ([], [])"
  by (simp add: live_stage_def sm_env_def demo_env_def)

lemma sm_try_local: "try_fetch_local (sm_env fit local) dl r df dt = local r"
  by (simp add: try_fetch_local_def sm_env_def demo_env_def)

text \<open>
  The history when the live source gives nothing and the local dataset has a usable,
  normalized series under the key \<open>LKA\<close> only.
\<close>

lemma lka_history:
  assumes "\<And>dl. live_stage E dl ''Sri Lanka'' df dt = ([], [])"
    and "tried_regions E ''Sri Lanka'' = [''Sri Lanka'', ''LKA'']"
    and "\<And>dl r. try_fetch_local E dl r df dt = lka_only s r"
    and "\<not> needs_fallback s" "to_monthly_df s = s"
  shows "get_monthly_history E ''dengue'' ''Sri Lanka'' df dt = (s, [local_note ''LKA''], [])"
    and "prepare_history E ''dengue'' ''Sri Lanka'' df dt = (s, [local_note ''LKA''], [])"
proof -
  have ne: "s \<noteq> []" using assms(4) by auto
  show h: "get_monthly_history E ''dengue'' ''Sri Lanka'' df dt = (s, [local_note ''LKA''], [])"
    unfolding history_stages
    by (simp add: Let_def assms first_nonempty_key_def lka_only_def ne)
  show "prepare_history E ''dengue'' ''Sri Lanka'' df dt = (s, [local_note ''LKA''], [])"
    by (simp add: prepare_history_def h ne)
qed

lemma neg3_usable: "\<not> needs_fallback neg3"
  by (simp add: needs_fallback_def neg3_def is_flat_def list_max_def list_min_def)

lemma neg3_normal: "to_monthly_df neg3 = neg3"
  by (rule to_monthly_df_fixed) (simp add: monthly_normal_def neg3_def ymd_def)

lemma neg3_nonempty: "neg3 \<noteq> []"
  by (simp add: neg3_def)

lemma demo_neg_prepare:
  "prepare_history (demo_env b (lka_only neg3) synth) ''dengue'' ''Sri Lanka'' df dt
     = (neg3, [local_note ''LKA''], [])"
  by (rule lka_history(2)) (simp_all add: demo_live demo_tried demo_try_local neg3_usable neg3_normal)

lemma neg3_std: "std_ddof1 (map snd neg3) = 2"
proof -
  have "std_ddof1 (map snd neg3) = sqrt 4"
    by (simp add: std_ddof1_def neg3_def mean_of_def power2_eq_square)
  then show ?thesis by simp
qed

lemma neg3_moving:
  "moving_avg_forecast neg3 h =
     Inr (zip (make_future_month_index (ymd 2021 3 1) h) (replicate (nat h) (-10)),
          band_frame (zip (make_future_month_index (ymd 2021 3 1) h) (replicate (nat h) (-10)))
            (328 / 100),
          ''moving_avg'')"
proof -
  have l: "2 \<le> length neg3" by (simp add: neg3_def)
  have avg: "ma_avg neg3 = -10" by (simp add: ma_avg_def neg3_def mean_of_def)
  have "drop (length (map snd neg3) - min 6 (length neg3)) (map snd neg3) = map snd neg3"
    by (simp add: neg3_def)
  then have band: "ma_band neg3 = 328 / 100"
    unfolding ma_band_def Let_def by (simp add: neg3_std std_isnan_def) (simp add: neg3_def)
  have last: "fst (last neg3) = ymd 2021 3 1" by (simp add: neg3_def)
  show ?thesis
    unfolding moving_avg_eq[OF l] avg band last ..
qed

lemma demo_neg_choose_gen:
  "choose_method (demo_env False local synth) neg3 df h =
     Inr (as_frames
            (zip (make_future_month_index (ymd 2021 3 1) h) (replicate (nat h) (-10)),
             band_frame (zip (make_future_month_index (ymd 2021 3 1) h) (replicate (nat h) (-10)))
               (328 / 100),
             ''moving_avg''), [])"
proof -
  have 1: "sarimax_forecast (demo_env False local synth) neg3 h = Inl (RuntimeError ''statsmodels unavailable'')"
    by (simp add: sarimax_forecast_def demo_env_def)
  have 2: "naive_seasonal_forecast neg3 h = Inl (RuntimeError ''series too short for seasonal naive'')"
    by (simp add: naive_seasonal_forecast_def neg3_def)
  show ?thesis unfolding choose_method_def 1 2 neg3_moving by simp
qed

lemma future_index_two:
  "make_future_month_index (ymd 2021 3 1) 2 = [ymd 2021 4 1, ymd 2021 5 1]"
  by (simp add: make_future_month_index_def ymd_def numeral_2_eq_2)

lemma demo_neg_choose:
  "choose_method (demo_env False local synth) neg3 df 2 =
     Inr (([(Month (ymd 2021 4 1), -10), (Month (ymd 2021 5 1), -10)],
          [(Month (ymd 2021 4 1), Val (-10 - 328 / 100), Val (-10 + 328 / 100)),
           (Month (ymd 2021 5 1), Val (-10 - 328 / 100), Val (-10 + 328 / 100))],
          ''moving_avg''), [])"
  unfolding demo_neg_choose_gen future_index_two
  by (simp add: as_frames_parts band_frame_def numeral_2_eq_2)

lemma demo_neg_forecast:
  "forecast_monthly (demo_env False (lka_only neg3) synth) ''dengue'' ''Sri Lanka'' df dt 2 =
     Inr \<lparr>history = neg3,
          forecast = [\<lparr>fp_date = ymd 2021 4 1, yhat = -10, yhat_lower = 0, yhat_upper = 0\<rparr>,
                      \<lparr>fp_date = ymd 2021 5 1, yhat = -10, yhat_lower = 0, yhat_upper = 0\<rparr>],
          method_used = ''moving_avg'',
          provenance = [local_note ''LKA''],
          warnings = []\<rparr>"
  unfolding forecast_monthly_def demo_neg_prepare
  by (simp add: demo_neg_choose ymd_def)

lemma demo_neg_forecast_none:
  "forecast_monthly (demo_env False (lka_only neg3) synth) ''dengue'' ''Sri Lanka'' df dt (- 1) =
     Inr \<lparr>history = neg3, forecast = [], method_used = ''moving_avg'',
          provenance = [local_note ''LKA''], warnings = []\<rparr>"
  unfolding forecast_monthly_def demo_neg_prepare
  by (simp add: demo_neg_choose_gen as_frames_parts band_frame_def make_future_month_index_def)

lemma map_of_const_rows:
  assumes "l \<in> set idx" shows "map_of (map (\<lambda>l. (l, c)) idx) l = Some c"
  using assms by (induction idx) auto

lemma dated_fit_rows:
  assumes "dated_fit y steps = Inr (mean, conf)"
  shows "map fst mean = map Month (make_future_month_index (fst (last y)) steps)"
    and "(l, v) \<in> set mean \<Longrightarrow>
           v = snd (last y) \<and> map_of conf l = Some (Val (snd (last y) - 1), Val (snd (last y) + 1))"
proof -
  let ?idx = "map Month (make_future_month_index (fst (last y)) steps)"
  have m: "mean = map (\<lambda>l. (l, snd (last y))) ?idx"
    and c: "conf = map (\<lambda>l. (l, Val (snd (last y) - 1), Val (snd (last y) + 1))) ?idx"
    using assms by (simp_all add: dated_fit_def Let_def)
  show "map fst mean = ?idx" unfolding m by (simp add: o_def)
  assume "(l, v) \<in> set mean"
  then have "l \<in> set ?idx" "v = snd (last y)" unfolding m by auto
  then show "v = snd (last y) \<and> map_of conf l = Some (Val (snd (last y) - 1), Val (snd (last y) + 1))"
    unfolding c using map_of_const_rows[of l ?idx] by simp
qed

lemma demo_fit: "SARIMAX_fit (demo_env b local synth) = dated_fit"
  by (simp add: demo_env_def)


lemma demo_index: "sarimax_index (demo_env b local synth)"
  unfolding sarimax_index_def demo_fit using dated_fit_rows(1) by blast

lemma demo_brackets: "sarimax_brackets (demo_env b local synth)"
  unfolding sarimax_brackets_def demo_fit
proof (intro allI impI)
  fix y steps mean conf d v lo hi
  assume a: "dated_fit y steps = Inr (mean, conf) \<and> (d, v) \<in> set mean
        \<and> map_of conf d = Some (lo, hi)"
  then have "v = snd (last y) \<and> map_of conf d = Some (Val (snd (last y) - 1), Val (snd (last y) + 1))"
    using dated_fit_rows(2)[of y steps mean conf d v] by simp
  then show "\<exists>a b. lo = Val a \<and> hi = Val b \<and> a \<le> v \<and> v \<le> b"
    using a by simp
qed


lemma synthetic_extension_total:
  assumes "y \<noteq> [] \<or> (\<exists>a. Timestamp E df = Inr a)"
  shows "\<exists>r. synthetic_extension E y df h = Inr r"
  using assms unfolding synthetic_extension_def Let_def by (auto split: sum.splits)

lemma choose_method_total:
  assumes "y \<noteq> [] \<or> (\<exists>a. Timestamp E df = Inr a)"
  shows "\<exists>r added. choose_method E y df h = Inr (r, added)"
  using synthetic_extension_total[OF assms, of h]
  unfolding choose_method_def by (auto simp: as_frames_parts split: sum.splits)


lemma is_flat_spread:
  assumes "x \<in> set vs" "y \<in> set vs" "1 / 10 ^ 9 \<le> x - y"
  shows "\<not> is_flat vs"
proof -
  have mx: "a \<le> fold max xs a \<and> (\<forall>z \<in> set xs. z \<le> fold max xs a)" for xs and a :: real
  proof (induction xs arbitrary: a)
    case Nil
    then show ?case by simp
  next
    case (Cons b xs)
    from Cons.IH[of "max b a"] show ?case by auto
  qed
  have mn: "fold min xs a \<le> a \<and> (\<forall>z \<in> set xs. fold min xs a \<le> z)" for xs and a :: real
  proof (induction xs arbitrary: a)
    case Nil
    then show ?case by simp
  next
    case (Cons b xs)
    from Cons.IH[of "min b a"] show ?case by auto
  qed
  obtain a xs where vs: "vs = a # xs" using assms(1) by (cases vs) auto
  have "x \<le> list_max vs" using assms(1) mx[of a xs] by (auto simp: vs list_max_def)
  moreover have "list_min vs \<le> y" using assms(2) mn[of xs a] by (auto simp: vs list_min_def)
  moreover have "2 \<le> length vs"
  proof (rule ccontr)
    assume "\<not> 2 \<le> length vs"
    then have "xs = []" by (cases xs) (simp_all add: vs)
    then have "x = y" using assms(1,2) by (simp add: vs)
    then show False using assms(3) by simp
  qed
  moreover have "vs \<noteq> []" by (simp add: vs)
  ultimately show ?thesis using assms(3) by (simp add: is_flat_def)
qed

lemma hist24_rows:
  "map (\<lambda>r. mon (fst r)) hist24 = map (\<lambda>i. mon (ymd 2021 1 1) + int i) [0..<24]"
  "list_all (\<lambda>r. day (fst r) = 1) hist24" "length hist24 = 24"
  "last hist24 = (ymd 2022 12 1, 223)" "(ymd 2021 1 1, 200) \<in> set hist24"
proof -
  show "map (\<lambda>r. mon (fst r)) hist24 = map (\<lambda>i. mon (ymd 2021 1 1) + int i) [0..<24]"
    by (simp add: hist24_def o_def)
  show "list_all (\<lambda>r. day (fst r) = 1) hist24" by (simp add: hist24_def list_all_iff)
  show "length hist24 = 24" by (simp add: hist24_def)
  have "hist24 \<noteq> []" by (simp add: hist24_def)
  then have "last hist24 = hist24 ! 23" by (simp add: last_conv_nth hist24_def)
  then show "last hist24 = (ymd 2022 12 1, 223)" by (simp add: hist24_def ymd_def)
  have "(ymd 2021 1 1, 200) = (\<lambda>i. (Date (mon (ymd 2021 1 1) + int i) 1, 200 + real i)) 0"
    by (simp add: ymd_def)
  then show "(ymd 2021 1 1, 200) \<in> set hist24"
    unfolding hist24_def by (metis (no_types, lifting) atLeastLessThan_iff imageI
        set_map set_upt zero_le zero_less_numeral)
qed

lemma hist24_normal: "to_monthly_df hist24 = hist24"
proof (rule to_monthly_df_fixed)
  have s: "sorted (map (\<lambda>i. mon (ymd 2021 1 1) + int i) [0..<24])"
    by (simp add: sorted_map)
  have d: "distinct (map (\<lambda>i. mon (ymd 2021 1 1) + int i) [0..<24])"
    by (simp add: distinct_map inj_on_def)
  show "monthly_normal hist24"
    unfolding monthly_normal_def hist24_rows(1) using s d hist24_rows(2) by simp
qed

lemma hist24_usable: "\<not> needs_fallback hist24"
proof -
  have "(ymd 2022 12 1, 223) \<in> set hist24"
    using hist24_rows(3,4) by (metis last_in_set length_0_conv zero_neq_numeral)
  then have "223 \<in> set (map snd hist24)" "200 \<in> set (map snd hist24)"
    using hist24_rows(5) by force+
  then have "\<not> is_flat (map snd hist24)" by (rule is_flat_spread) simp
  moreover have "hist24 \<noteq> []" using hist24_rows(3) by auto
  ultimately show ?thesis using hist24_rows(3) by (simp add: needs_fallback_def)
qed







lemma sm_hist_prepare:
  "prepare_history (sm_env fit (lka_only hist24)) ''dengue'' ''Sri Lanka'' df dt
     = (hist24, [local_note ''LKA''], [])"
  by (rule lka_history(2)) (simp_all add: sm_live sm_tried sm_try_local hist24_usable hist24_normal)

lemma sm_sarimax:
  assumes "24 \<le> length y" "\<not> is_flat (map snd y)" "fit y h = Inr (mean, conf)"
  shows "choose_method (sm_env fit local) y df h = Inr ((mean, conf, ''sarimax''), [])"
  using assms by (simp add: choose_method_def sarimax_forecast_def sm_env_def demo_env_def)






lemma choose_method_sarimax:
  assumes "HAS_SM E" "24 \<le> length y" "\<not> is_flat (map snd y)"
    and "SARIMAX_fit E y h = Inr (mean, conf)"
  shows "choose_method E y date_from h = Inr ((mean, conf, ''sarimax''), [])"
  using assms by (simp add: choose_method_def sarimax_forecast_def)

lemma future_index_one:
  "make_future_month_index (ymd 2022 12 1) 1 = [ymd 2023 1 1]"
  by (simp add: make_future_month_index_def ymd_def)

lemma hist24_not_flat: "\<not> is_flat (map snd hist24)"
  using hist24_usable hist24_rows(3) by (auto simp: needs_fallback_def)

lemma demo_hist_prepare:
  "prepare_history (demo_env b (lka_only hist24) synth) ''dengue'' ''Sri Lanka'' df dt
     = (hist24, [local_note ''LKA''], [])"
  by (rule lka_history(2))
    (simp_all add: demo_live demo_tried demo_try_local hist24_usable hist24_normal)

lemma demo_sarimax_forecast:
  "forecast_monthly (demo_env True (lka_only hist24) synth) ''dengue'' ''Sri Lanka'' df dt 1 =
     Inr \<lparr>history = hist24,
          forecast = [\<lparr>fp_date = ymd 2023 1 1, yhat = 223, yhat_lower = 222, yhat_upper = 224\<rparr>],
          method_used = ''sarimax'',
          provenance = [local_note ''LKA''],
          warnings = []\<rparr>"
proof -
  have fit: "SARIMAX_fit (demo_env True (lka_only hist24) synth) hist24 1 =
      Inr ([(Month (ymd 2023 1 1), 223)], [(Month (ymd 2023 1 1), Val 222, Val 224)])"
    unfolding demo_fit dated_fit_def Let_def hist24_rows(4) fst_conv snd_conv future_index_one
    by simp
  have ch: "choose_method (demo_env True (lka_only hist24) synth) hist24 df 1 =
      Inr (([(Month (ymd 2023 1 1), 223)], [(Month (ymd 2023 1 1), Val 222, Val 224)],
            ''sarimax''), [])"
    by (rule choose_method_sarimax) (simp_all add: demo_env_def hist24_rows(3) hist24_not_flat
        fit[unfolded demo_fit])
  show ?thesis
    unfolding forecast_monthly_def demo_hist_prepare by (simp add: ch)
qed

lemma nan_band_forecast:
  "forecast_monthly (sm_env nan_band_fit (lka_only hist24)) ''dengue'' ''Sri Lanka'' df dt 1 =
     Inr \<lparr>history = hist24,
          forecast = [\<lparr>fp_date = ymd 2023 1 1, yhat = 223, yhat_lower = 0, yhat_upper = 0\<rparr>],
          method_used = ''sarimax'',
          provenance = [local_note ''LKA''],
          warnings = []\<rparr>"
proof -
  have fit: "nan_band_fit hist24 1 =
      Inr ([(Month (ymd 2023 1 1), 223)], [(Month (ymd 2023 1 1), NaN, NaN)])"
    unfolding nan_band_fit_def Let_def hist24_rows(4) fst_conv snd_conv future_index_one
    by simp
  have ch: "choose_method (sm_env nan_band_fit (lka_only hist24)) hist24 df 1 =
      Inr (([(Month (ymd 2023 1 1), 223)], [(Month (ymd 2023 1 1), NaN, NaN)], ''sarimax''), [])"
    by (rule sm_sarimax) (simp_all add: hist24_rows(3) hist24_not_flat fit)
  show ?thesis
    unfolding forecast_monthly_def sm_hist_prepare by (simp add: ch)
qed

lemma month_labels:
  assumes "list_all (\<lambda>x. is_Month (fst x)) mean"
  shows "map Month (map fp_date (map (clamp_point conf) mean)) = map fst mean"
  using assms by (induction mean) (auto simp: clamp_point_def)

lemma month_labels_eq:
  assumes "map Month ds = map Month es" shows "ds = es"
proof -
  have "inj Month" by (simp add: inj_on_def)
  then show ?thesis using assms by (simp add: inj_map_eq_map)
qed

lemma future_index_steps:
  "Suc i < nat h \<Longrightarrow>
     mon (make_future_month_index a h ! Suc i) = mon (make_future_month_index a h ! i) + 1"
  by (simp add: make_future_month_index_def)

lemma future_index_day: "list_all (\<lambda>d. day d = 1) (make_future_month_index a h)"
  by (simp add: make_future_month_index_def list_all_iff)

lemma is_month_rows:
  assumes "list_all (\<lambda>x. is_Month (fst x) \<and> map_of conf (fst x) \<noteq> None) mean"
  shows "list_all (\<lambda>x. is_Month (fst x)) mean" "list_all (\<lambda>x. map_of conf (fst x) \<noteq> None) mean"
  using assms by (simp_all add: list_all_iff)

text \<open>
  Claim C2, as amended. Every result of \<^verbatim>\<open>forecast_monthly\<close> with horizon \<open>h\<close> that the
  seasonal-naive, the moving-average or the synthetic strategy produced has exactly
  \<open>h\<close> forecast points when \<open>h\<close> is not negative and none when it is; their dates are
  first days of months, each one month after the one before, starting the month after
  the last month of the history (after the month of \<^verbatim>\<open>date_from\<close> in the case of an
  empty history). The points of a SARIMAX forecast are those of the index that
  statsmodels gives its forecast; the same count and dates hold for them whenever
  statsmodels labels its forecast by the months that follow the history.
\<close>

theorem forecast_dates_consecutive:
  assumes "forecast_monthly E disease region date_from date_to h = Inr r"
  shows "(method_used r = ''sarimax'' \<longrightarrow>
            (\<exists>mean conf. SARIMAX_fit E (history r) h = Inr (mean, conf)
               \<and> map fst mean = map Month (map fp_date (forecast r))))
     \<and> (method_used r \<noteq> ''sarimax'' \<or> sarimax_index E \<longrightarrow>
          length (forecast r) = nat h
        \<and> (history r \<noteq> [] \<longrightarrow>
             map fp_date (forecast r)
               = map (\<lambda>i. Date (mon (fst (last (history r))) + 1 + int i) 1) [0..<nat h])
        \<and> (history r = [] \<longrightarrow>
             (\<exists>a. Timestamp E date_from = Inr a
                \<and> map fp_date (forecast r) = map (\<lambda>i. Date (mon a + 1 + int i) 1) [0..<nat h]))
        \<and> (\<forall>i. Suc i < nat h \<longrightarrow>
             mon (fp_date (forecast r ! Suc i)) = mon (fp_date (forecast r ! i)) + 1)
        \<and> list_all (\<lambda>p. day (fp_date p) = 1) (forecast r))"
proof (intro conjI impI)
  from forecast_monthly_parts[OF assms] obtain mean conf added where
    ch: "choose_method E (history r) date_from h = Inr ((mean, conf, method_used r), added)"
    and rows: "list_all (\<lambda>x. is_Month (fst x) \<and> map_of conf (fst x) \<noteq> None) mean"
    and fc: "forecast r = map (clamp_point conf) mean" by blast
  have lab: "map fst mean = map Month (map fp_date (forecast r))"
    unfolding fc using month_labels[OF is_month_rows(1)[OF rows]] by simp
  {
    assume s: "method_used r = ''sarimax''"
    from ch have "SARIMAX_fit E (history r) h = Inr (mean, conf)"
      by (cases rule: choose_method_sarimax_or_banded) (use s in simp_all)
    then show "\<exists>mean conf. SARIMAX_fit E (history r) h = Inr (mean, conf)
               \<and> map fst mean = map Month (map fp_date (forecast r))"
      using lab by blast
  }
  assume hyp: "method_used r \<noteq> ''sarimax'' \<or> sarimax_index E"
  from ch have "\<exists>a. map fst mean = map Month (make_future_month_index a h)
           \<and> (if history r \<noteq> [] then a = fst (last (history r)) else Timestamp E date_from = Inr a)"
  proof (cases rule: choose_method_sarimax_or_banded)
    case sarimax
    then have "sarimax_index E" using hyp by simp
    then have "map fst mean = map Month (make_future_month_index (fst (last (history r))) h)"
      using sarimax(1) unfolding sarimax_index_def by blast
    moreover have "history r \<noteq> []" using sarimax(2) by auto
    ultimately show ?thesis by auto
  next
    case (banded a mean0 conf0)
    from banded_dates[OF banded(2,1)] banded(3) show ?thesis by blast
  qed
  then obtain a where a: "map fp_date (forecast r) = make_future_month_index a h"
    "if history r \<noteq> [] then a = fst (last (history r)) else Timestamp E date_from = Inr a"
    using lab month_labels_eq by metis
  show len: "length (forecast r) = nat h"
    using arg_cong[OF a(1), of length] by simp
  show "\<forall>i. Suc i < nat h \<longrightarrow>
          mon (fp_date (forecast r ! Suc i)) = mon (fp_date (forecast r ! i)) + 1"
  proof (intro allI impI)
    fix i assume i: "Suc i < nat h"
    have "fp_date (forecast r ! Suc i) = map fp_date (forecast r) ! Suc i"
         "fp_date (forecast r ! i) = map fp_date (forecast r) ! i"
      using i len by simp_all
    then show "mon (fp_date (forecast r ! Suc i)) = mon (fp_date (forecast r ! i)) + 1"
      unfolding a(1) using future_index_steps[OF i] by simp
  qed
  show "list_all (\<lambda>p. day (fp_date p) = 1) (forecast r)"
    using future_index_day[of a h] unfolding a(1)[symmetric] by (simp add: list_all_iff)
  {
    assume "history r \<noteq> []"
    then show "map fp_date (forecast r)
        = map (\<lambda>i. Date (mon (fst (last (history r))) + 1 + int i) 1) [0..<nat h]"
      using a by (simp add: make_future_month_index_def)
  }
  assume "history r = []"
  then show "\<exists>a. Timestamp E date_from = Inr a
       \<and> map fp_date (forecast r) = map (\<lambda>i. Date (mon a + 1 + int i) 1) [0..<nat h]"
    using a by (auto simp: make_future_month_index_def)
qed

theorem forecast_dates_consecutive_witness:
  "forecast_monthly (demo_env True (lka_only hist24) []) ''dengue'' ''Sri Lanka''
       ''2021-01-01'' ''2022-12-31'' 1
     = Inr \<lparr>history = hist24,
            forecast = [\<lparr>fp_date = ymd 2023 1 1, yhat = 223, yhat_lower = 222, yhat_upper = 224\<rparr>],
            method_used = ''sarimax'',
            provenance = [local_note ''LKA''],
            warnings = []\<rparr>
   \<and> sarimax_index (demo_env True (lka_only hist24) [])
   \<and> last hist24 = (ymd 2022 12 1, 223)
   \<and> forecast_monthly (demo_env False (lka_only neg3) []) ''dengue'' ''Sri Lanka''
       ''2021-01-01'' ''2021-12-31'' 2
     = Inr \<lparr>history = neg3,
            forecast = [\<lparr>fp_date = ymd 2021 4 1, yhat = -10, yhat_lower = 0, yhat_upper = 0\<rparr>,
                        \<lparr>fp_date = ymd 2021 5 1, yhat = -10, yhat_lower = 0, yhat_upper = 0\<rparr>],
            method_used = ''moving_avg'',
            provenance = [local_note ''LKA''],
            warnings = []\<rparr>
   \<and> ''moving_avg'' \<noteq> ''sarimax''
   \<and> last neg3 = (ymd 2021 3 1, -8)
   \<and> map fp_date
        [\<lparr>fp_date = ymd 2021 4 1, yhat = -10, yhat_lower = 0, yhat_upper = 0\<rparr>,
         \<lparr>fp_date = ymd 2021 5 1, yhat = -10, yhat_lower = 0, yhat_upper = 0\<rparr>]
      = [Date (mon (ymd 2021 3 1) + 1) 1, Date (mon (ymd 2021 3 1) + 2) 1]
   \<and> map fp_date
        [\<lparr>fp_date = ymd 2023 1 1, yhat = 223, yhat_lower = 222, yhat_upper = 224\<rparr>]
      = [Date (mon (ymd 2022 12 1) + 1) 1]"
proof -
  let ?E = "demo_env False (lka_only neg3) []"
  let ?r = "\<lparr>history = neg3,
          forecast = [\<lparr>fp_date = ymd 2021 4 1, yhat = -10, yhat_lower = 0, yhat_upper = 0\<rparr>,
                      \<lparr>fp_date = ymd 2021 5 1, yhat = -10, yhat_lower = 0, yhat_upper = 0\<rparr>],
          method_used = ''moving_avg'',
          provenance = [local_note ''LKA''],
          warnings = []\<rparr>"
  let ?S = "demo_env True (lka_only hist24) []"
  let ?s = "\<lparr>history = hist24,
            forecast = [\<lparr>fp_date = ymd 2023 1 1, yhat = 223, yhat_lower = 222, yhat_upper = 224\<rparr>],
            method_used = ''sarimax'',
            provenance = [local_note ''LKA''],
            warnings = []\<rparr>"
  have 1: "forecast_monthly ?E ''dengue'' ''Sri Lanka'' ''2021-01-01'' ''2021-12-31'' 2 = Inr ?r"
    by (rule demo_neg_forecast)
  have 2: "forecast_monthly ?S ''dengue'' ''Sri Lanka'' ''2021-01-01'' ''2022-12-31'' 1 = Inr ?s"
    by (rule demo_sarimax_forecast)
  have 3: "sarimax_index ?S" by (rule demo_index)
  have 4: "last neg3 = (ymd 2021 3 1, -8)" by (simp add: neg3_def)
  have 5: "[0..<nat 2] = [0, 1]" "[0..<nat 1] = [0]" by (simp_all add: upt_conv_Cons)
  have a: "map fp_date (forecast ?r)
        = map (\<lambda>i. Date (mon (fst (last (history ?r))) + 1 + int i) 1) [0..<nat 2]"
    using forecast_dates_consecutive[OF 1] neg3_nonempty by simp
  have b: "map fp_date (forecast ?s)
        = map (\<lambda>i. Date (mon (fst (last (history ?s))) + 1 + int i) 1) [0..<nat 1]"
    using forecast_dates_consecutive[OF 2] 3 hist24_rows(3) by auto
  show ?thesis
    using 1 2 3 4 hist24_rows(4) a b unfolding 5 by (simp add: 4 hist24_rows(4))
qed

text \<open>
  The claim as stated, exactly \<open>h\<close> points, fails for a negative horizon, which the
  request model does not exclude: the ranges and the repeated lists of the forecasters
  are empty then, and the result has no forecast points.
\<close>

theorem negative_horizon_counterexample:
  "forecast_monthly (demo_env False (lka_only neg3) []) ''dengue'' ''Sri Lanka''
       ''2021-01-01'' ''2021-12-31'' (- 1)
     = Inr \<lparr>history = neg3, forecast = [], method_used = ''moving_avg'',
            provenance = [local_note ''LKA''], warnings = []\<rparr>
   \<and> int (length (forecast \<lparr>history = neg3, forecast = [], method_used = ''moving_avg'',
            provenance = [local_note ''LKA''], warnings = []\<rparr>)) \<noteq> - 1"
  using demo_neg_forecast_none[of "[]" "''2021-01-01''" "''2021-12-31''"] by simp

lemma clamp0_nonneg: "0 \<le> clamp0 b"
  by (cases b) simp_all

lemma clamp_order:
  fixes v lo hi :: real
  assumes "lo \<le> v" "v \<le> hi"
  shows "max 0 lo \<le> max 0 hi \<and> v \<le> max 0 hi \<and> (max 0 lo \<le> v \<longleftrightarrow> 0 \<le> v)"
  using assms by auto

lemma forecast_point_bounds:
  assumes "forecast_monthly E disease region date_from date_to h = Inr r"
    and "p \<in> set (forecast r)"
  shows "0 \<le> yhat_lower p \<and> 0 \<le> yhat_upper p
     \<and> (method_used r \<noteq> ''sarimax'' \<or> sarimax_brackets E \<longrightarrow>
          yhat_lower p \<le> yhat_upper p \<and> yhat p \<le> yhat_upper p
          \<and> (yhat_lower p \<le> yhat p \<longleftrightarrow> 0 \<le> yhat p))
     \<and> (method_used r = ''sarimax'' \<longrightarrow>
          (\<exists>mean conf lo hi. SARIMAX_fit E (history r) h = Inr (mean, conf)
             \<and> (Month (fp_date p), yhat p) \<in> set mean
             \<and> map_of conf (Month (fp_date p)) = Some (lo, hi)
             \<and> yhat_lower p = clamp0 lo \<and> yhat_upper p = clamp0 hi))"
proof -
  from forecast_monthly_parts[OF assms(1)] obtain mean conf added where
    ch: "choose_method E (history r) date_from h = Inr ((mean, conf, method_used r), added)"
    and rows: "list_all (\<lambda>x. is_Month (fst x) \<and> map_of conf (fst x) \<noteq> None) mean"
    and fc: "forecast r = map (clamp_point conf) mean" by blast
  from assms(2) obtain l v where lv: "(l, v) \<in> set mean" "p = clamp_point conf (l, v)"
    unfolding fc by auto
  from rows lv(1) obtain lo hi where lh: "map_of conf l = Some (lo, hi)" and m: "is_Month l"
    by (fastforce simp: list_all_iff)
  have l: "l = Month (fp_date p)" using m by (simp add: lv(2) clamp_point_def)
  have p: "yhat p = v" "yhat_lower p = clamp0 lo" "yhat_upper p = clamp0 hi"
    by (simp_all add: lv(2) clamp_point_def lh)
  have nonneg: "0 \<le> yhat_lower p \<and> 0 \<le> yhat_upper p"
    unfolding p by (simp add: clamp0_nonneg)
  have ord: "yhat_lower p \<le> yhat_upper p \<and> yhat p \<le> yhat_upper p
          \<and> (yhat_lower p \<le> yhat p \<longleftrightarrow> 0 \<le> yhat p)"
    if hyp: "method_used r \<noteq> ''sarimax'' \<or> sarimax_brackets E"
  proof -
    from ch have "\<exists>a b. lo = Val a \<and> hi = Val b \<and> a \<le> v \<and> v \<le> b"
    proof (cases rule: choose_method_sarimax_or_banded)
      case sarimax
      then have "sarimax_brackets E" using hyp by simp
      then show ?thesis using sarimax(1) lv(1) lh unfolding sarimax_brackets_def by blast
    next
      case (banded a mean0 conf0)
      from banded_rows[OF banded(2,1) lv(1)] lh show ?thesis by auto
    qed
    then obtain a b where "lo = Val a" "hi = Val b" "a \<le> v" "v \<le> b" by blast
    then show ?thesis unfolding p using clamp_order[of a v b] by simp
  qed
  have sm: "\<exists>mean conf lo hi. SARIMAX_fit E (history r) h = Inr (mean, conf)
             \<and> (Month (fp_date p), yhat p) \<in> set mean
             \<and> map_of conf (Month (fp_date p)) = Some (lo, hi)
             \<and> yhat_lower p = clamp0 lo \<and> yhat_upper p = clamp0 hi"
    if s: "method_used r = ''sarimax''"
  proof -
    from ch have "SARIMAX_fit E (history r) h = Inr (mean, conf)"
      by (cases rule: choose_method_sarimax_or_banded) (use s in simp_all)
    then show ?thesis using lv(1) lh p unfolding l[symmetric] by blast
  qed
  show ?thesis using nonneg ord sm by blast
qed

text \<open>
  Claim C3, as amended. In every result of \<^verbatim>\<open>forecast_monthly\<close>, whichever strategy
  produced it, every forecast point has a lower bound and an upper bound of at least
  0. For the seasonal-naive, the moving-average and the synthetic strategy, and for
  SARIMAX whenever the interval of statsmodels consists of numbers that contain its
  mean, the lower bound does not exceed the upper bound, the point estimate does not
  exceed the upper bound, and the lower bound is at most the point estimate exactly
  when the point estimate is not negative, since the bounds are clamped at 0 and the
  point estimate is not. The bounds of a SARIMAX point are those of statsmodels
  clamped at 0, a NaN bound becoming 0.
\<close>

theorem forecast_bounds_clamped:
  assumes "forecast_monthly E disease region date_from date_to h = Inr r"
    and "p \<in> set (forecast r)"
  shows "0 \<le> yhat_lower p \<and> 0 \<le> yhat_upper p
     \<and> (method_used r \<noteq> ''sarimax'' \<or> sarimax_brackets E \<longrightarrow>
          yhat_lower p \<le> yhat_upper p \<and> yhat p \<le> yhat_upper p
          \<and> (yhat_lower p \<le> yhat p \<longleftrightarrow> 0 \<le> yhat p))
     \<and> (method_used r = ''sarimax'' \<longrightarrow>
          (\<exists>mean conf lo hi. SARIMAX_fit E (history r) h = Inr (mean, conf)
             \<and> (Month (fp_date p), yhat p) \<in> set mean
             \<and> map_of conf (Month (fp_date p)) = Some (lo, hi)
             \<and> yhat_lower p = clamp0 lo \<and> yhat_upper p = clamp0 hi))"
  using assms by (rule forecast_point_bounds)

theorem forecast_bounds_clamped_witness:
  "forecast_monthly (demo_env True (lka_only hist24) []) ''dengue'' ''Sri Lanka''
       ''2021-01-01'' ''2022-12-31'' 1
     = Inr \<lparr>history = hist24,
            forecast = [\<lparr>fp_date = ymd 2023 1 1, yhat = 223, yhat_lower = 222, yhat_upper = 224\<rparr>],
            method_used = ''sarimax'',
            provenance = [local_note ''LKA''],
            warnings = []\<rparr>
   \<and> sarimax_brackets (demo_env True (lka_only hist24) [])
   \<and> (\<exists>mean conf lo hi.
         SARIMAX_fit (demo_env True (lka_only hist24) []) hist24 1 = Inr (mean, conf)
         \<and> (Month (ymd 2023 1 1), 223) \<in> set mean
         \<and> map_of conf (Month (ymd 2023 1 1)) = Some (lo, hi)
         \<and> 222 = clamp0 lo \<and> 224 = clamp0 hi)
   \<and> forecast_monthly (demo_env False (lka_only neg3) []) ''dengue'' ''Sri Lanka''
       ''2021-01-01'' ''2021-12-31'' 2
     = Inr \<lparr>history = neg3,
            forecast = [\<lparr>fp_date = ymd 2021 4 1, yhat = -10, yhat_lower = 0, yhat_upper = 0\<rparr>,
                        \<lparr>fp_date = ymd 2021 5 1, yhat = -10, yhat_lower = 0, yhat_upper = 0\<rparr>],
            method_used = ''moving_avg'',
            provenance = [local_note ''LKA''],
            warnings = []\<rparr>
   \<and> ''moving_avg'' \<noteq> ''sarimax''
   \<and> ((0::real) \<le> -10 \<longleftrightarrow> (0::real) \<le> -10)"
proof -
  let ?S = "demo_env True (lka_only hist24) []"
  let ?q = "\<lparr>fp_date = ymd 2023 1 1, yhat = 223, yhat_lower = 222, yhat_upper = 224\<rparr>"
  let ?s = "\<lparr>history = hist24, forecast = [?q], method_used = ''sarimax'',
            provenance = [local_note ''LKA''], warnings = []\<rparr>"
  let ?E = "demo_env False (lka_only neg3) []"
  let ?p = "\<lparr>fp_date = ymd 2021 4 1, yhat = -10, yhat_lower = 0, yhat_upper = 0\<rparr>"
  let ?r = "\<lparr>history = neg3,
          forecast = [?p, \<lparr>fp_date = ymd 2021 5 1, yhat = -10, yhat_lower = 0, yhat_upper = 0\<rparr>],
          method_used = ''moving_avg'',
          provenance = [local_note ''LKA''],
          warnings = []\<rparr>"
  have 1: "forecast_monthly ?E ''dengue'' ''Sri Lanka'' ''2021-01-01'' ''2021-12-31'' 2 = Inr ?r"
    by (rule demo_neg_forecast)
  have 2: "?p \<in> set (forecast ?r)" by simp
  have 3: "forecast_monthly ?S ''dengue'' ''Sri Lanka'' ''2021-01-01'' ''2022-12-31'' 1 = Inr ?s"
    by (rule demo_sarimax_forecast)
  have 4: "?q \<in> set (forecast ?s)" by simp
  have 5: "sarimax_brackets ?S" by (rule demo_brackets)
  have a: "\<exists>mean conf lo hi.
         SARIMAX_fit ?S hist24 1 = Inr (mean, conf)
         \<and> (Month (ymd 2023 1 1), 223) \<in> set mean
         \<and> map_of conf (Month (ymd 2023 1 1)) = Some (lo, hi)
         \<and> 222 = clamp0 lo \<and> 224 = clamp0 hi"
    using forecast_bounds_clamped[OF 3 4] by simp
  have b: "(yhat_lower ?p \<le> yhat ?p \<longleftrightarrow> 0 \<le> yhat ?p)"
    using forecast_bounds_clamped[OF 1 2] by simp
  show ?thesis using 1 3 5 a b by simp
qed

text \<open>
  The claim as stated fails in two ways. \<open>lower_bound \<le> point_estimate\<close> fails for a
  history of negative values: the moving average of -12, -10, -8 is -10, and both
  bounds are clamped to 0. \<open>point_estimate \<le> upper_bound\<close> fails for a SARIMAX forecast
  whose interval is NaN: the point estimate is 223, and both bounds are reported as 0.
\<close>

theorem bound_ordering_counterexample:
  "forecast_monthly (demo_env False (lka_only neg3) []) ''dengue'' ''Sri Lanka''
       ''2021-01-01'' ''2021-12-31'' 2
     = Inr \<lparr>history = neg3,
            forecast = [\<lparr>fp_date = ymd 2021 4 1, yhat = -10, yhat_lower = 0, yhat_upper = 0\<rparr>,
                        \<lparr>fp_date = ymd 2021 5 1, yhat = -10, yhat_lower = 0, yhat_upper = 0\<rparr>],
            method_used = ''moving_avg'',
            provenance = [local_note ''LKA''],
            warnings = []\<rparr>
   \<and> \<not> (yhat_lower \<lparr>fp_date = ymd 2021 4 1, yhat = -10, yhat_lower = 0, yhat_upper = 0\<rparr>
          \<le> yhat \<lparr>fp_date = ymd 2021 4 1, yhat = -10, yhat_lower = 0, yhat_upper = 0\<rparr>)
   \<and> forecast_monthly (sm_env nan_band_fit (lka_only hist24)) ''dengue'' ''Sri Lanka''
       ''2021-01-01'' ''2022-12-31'' 1
     = Inr \<lparr>history = hist24,
            forecast = [\<lparr>fp_date = ymd 2023 1 1, yhat = 223, yhat_lower = 0, yhat_upper = 0\<rparr>],
            method_used = ''sarimax'',
            provenance = [local_note ''LKA''],
            warnings = []\<rparr>
   \<and> \<not> (yhat \<lparr>fp_date = ymd 2023 1 1, yhat = 223, yhat_lower = 0, yhat_upper = 0\<rparr>
          \<le> yhat_upper \<lparr>fp_date = ymd 2023 1 1, yhat = 223, yhat_lower = 0, yhat_upper = 0\<rparr>)"
  using demo_neg_forecast[of "[]" "''2021-01-01''" "''2021-12-31''"]
    nan_band_forecast[of "''2021-01-01''" "''2022-12-31''"] by simp

text \<open>
  Claim C9. In every result of \<^verbatim>\<open>forecast_monthly\<close> the points are the rows of the mean
  of the chosen strategy, each with the point estimate as the strategy gave it and with
  both bounds replaced by 0 when negative (\<open>clamp_point\<close>): the upper bound reported is
  \<open>max 0\<close> of the strategy's upper bound, so it is never negative, also where the point
  estimate is. (A NaN bound of statsmodels is reported as 0 as well, by the same call
  of \<^verbatim>\<open>max\<close>.)
\<close>

theorem forecast_upper_clamped:
  assumes "forecast_monthly E disease region date_from date_to h = Inr r"
  shows "\<exists>mean conf added.
           choose_method E (history r) date_from h = Inr ((mean, conf, method_used r), added)
         \<and> list_all (\<lambda>x. is_Month (fst x)) mean
         \<and> list_all (\<lambda>x. map_of conf (fst x) \<noteq> None) mean
         \<and> forecast r = map (clamp_point conf) mean
         \<and> list_all (\<lambda>p. 0 \<le> yhat_upper p) (forecast r)"
proof -
  from forecast_monthly_parts[OF assms] obtain mean conf added where
    ch: "choose_method E (history r) date_from h = Inr ((mean, conf, method_used r), added)"
    and rows: "list_all (\<lambda>x. is_Month (fst x) \<and> map_of conf (fst x) \<noteq> None) mean"
    and fc: "forecast r = map (clamp_point conf) mean" by blast
  have "list_all (\<lambda>p. 0 \<le> yhat_upper p) (forecast r)"
    unfolding fc by (simp add: list_all_iff clamp_point_def clamp0_nonneg)
  then show ?thesis using ch is_month_rows[OF rows] fc by blast
qed

theorem forecast_upper_clamped_witness:
  "choose_method (demo_env False (lka_only neg3) []) neg3 ''2021-01-01'' 2 =
     Inr (([(Month (ymd 2021 4 1), -10), (Month (ymd 2021 5 1), -10)],
          [(Month (ymd 2021 4 1), Val (-10 - 328 / 100), Val (-10 + 328 / 100)),
           (Month (ymd 2021 5 1), Val (-10 - 328 / 100), Val (-10 + 328 / 100))],
          ''moving_avg''), [])
   \<and> (-10 + 328 / 100 :: real) < 0
   \<and> map (clamp_point [(Month (ymd 2021 4 1), Val (-10 - 328 / 100), Val (-10 + 328 / 100)),
                        (Month (ymd 2021 5 1), Val (-10 - 328 / 100), Val (-10 + 328 / 100))])
        [(Month (ymd 2021 4 1), -10), (Month (ymd 2021 5 1), -10)]
      = [\<lparr>fp_date = ymd 2021 4 1, yhat = -10, yhat_lower = 0, yhat_upper = 0\<rparr>,
         \<lparr>fp_date = ymd 2021 5 1, yhat = -10, yhat_lower = 0, yhat_upper = 0\<rparr>]"
proof -
  let ?E = "demo_env False (lka_only neg3) []"
  let ?r = "\<lparr>history = neg3,
          forecast = [\<lparr>fp_date = ymd 2021 4 1, yhat = -10, yhat_lower = 0, yhat_upper = 0\<rparr>,
                      \<lparr>fp_date = ymd 2021 5 1, yhat = -10, yhat_lower = 0, yhat_upper = 0\<rparr>],
          method_used = ''moving_avg'',
          provenance = [local_note ''LKA''],
          warnings = []\<rparr>"
  have 1: "forecast_monthly ?E ''dengue'' ''Sri Lanka'' ''2021-01-01'' ''2021-12-31'' 2 = Inr ?r"
    by (rule demo_neg_forecast)
  from forecast_upper_clamped[OF 1] obtain mean conf added where
    "choose_method ?E (history ?r) ''2021-01-01'' 2 = Inr ((mean, conf, method_used ?r), added)"
    "forecast ?r = map (clamp_point conf) mean" by blast
  then show ?thesis
    by (simp add: demo_neg_choose)
qed

section \<open>The degradation floor\<close>

lemma choose_method_by_length:
  assumes "choose_method E y df h = Inr ((mean, conf, m), added)" "length y < 24"
  shows "(\<exists>a mean0 conf0. (mean, conf, m) = as_frames (mean0, conf0, m)
            \<and> banded_on a h (mean0, conf0, m))
     \<and> (m = ''synthetic'' \<longleftrightarrow> length y < 2)
     \<and> (m = ''moving_avg'' \<longleftrightarrow> 2 \<le> length y \<and> length y < 12)
     \<and> (m = ''naive_seasonal'' \<longleftrightarrow> 12 \<le> length y)
     \<and> added = (if length y < 2
                 then [''Forecast produced from synthetic extension (no usable model).'']
                 else [])"
  using assms(1)
proof (cases rule: choose_method_sarimax_or_banded)
  case sarimax
  then show ?thesis using assms(2) by simp
next
  case (banded a mean0 conf0)
  have "\<exists>a mean0 conf0. (mean, conf, m) = as_frames (mean0, conf0, m)
            \<and> banded_on a h (mean0, conf0, m)"
    using banded(1,2) by blast
  moreover from banded(5) have "(m = ''synthetic'' \<longleftrightarrow> length y < 2)
     \<and> (m = ''moving_avg'' \<longleftrightarrow> 2 \<le> length y \<and> length y < 12)
     \<and> (m = ''naive_seasonal'' \<longleftrightarrow> 12 \<le> length y)
     \<and> added = (if length y < 2
                 then [''Forecast produced from synthetic extension (no usable model).'']
                 else [])"
    by auto
  ultimately show ?thesis by (rule conjI)
qed

lemma live_stage_empty:
  assumes "fst (live_stage E dl region df dt) = []"
  shows "live_stage E dl region df dt = ([], [])"
  using assms unfolding live_stage_def by (auto split: if_splits sum.splits)

lemma first_nonempty_none:
  assumes "list_all (\<lambda>r. try_fetch_local E dl r df dt = []) keys"
  shows "first_nonempty_key E dl df dt keys = None"
  using assms by (simp add: first_nonempty_key_def find_None_iff list_all_iff)

lemma history_all_empty:
  assumes "fst (live_stage E (strip (lower disease)) region df dt) = []"
    and "list_all (\<lambda>r. try_fetch_local E (strip (lower disease)) r df dt = []) (tried_regions E region)"
  shows "get_monthly_history E disease region df dt =
     (to_monthly_df (generate_synthetic_timeseries E df dt 12 100),
      [''synthetic: seasonal baseline (no/flat data)''],
      [''No usable live or local data in the requested window.''])"
  unfolding history_stages
  by (simp add: Let_def live_stage_empty[OF assms(1)] first_nonempty_none[OF assms(2)])

lemma length_to_monthly_df_le:
  assumes "\<not> spec_is_daily xs" shows "length (to_monthly_df xs) \<le> length xs"
proof (cases "xs = []")
  case True then show ?thesis by (simp add: to_monthly_df_def)
next
  case False
  have "length (to_monthly_df xs) = card (present_months xs)"
    using False assms by (simp add: to_monthly_df_rows spec_normalize_def spec_months_def)
  also have "\<dots> \<le> card (set xs)" unfolding present_months_def by (rule card_image_le) simp
  also have "\<dots> \<le> length xs" by (rule card_length)
  finally show ?thesis .
qed

lemma degradation_floor_lemma:
  assumes live: "fst (live_stage E (strip (lower disease)) region date_from date_to) = []"
    and loc: "list_all (\<lambda>r. try_fetch_local E (strip (lower disease)) r date_from date_to = [])
             (tried_regions E region)"
    and gen: "length (generate_synthetic_timeseries E date_from date_to 12 100) = 12"
  shows "\<exists>r. forecast_monthly E disease region date_from date_to 6 = Inr r
     \<and> length (forecast r) = 6
     \<and> history r = to_monthly_df (generate_synthetic_timeseries E date_from date_to 12 100)
     \<and> provenance r = [''synthetic: seasonal baseline (no/flat data)'']
     \<and> warnings r \<noteq> []
     \<and> hd (warnings r) = ''No usable live or local data in the requested window.''
     \<and> (method_used r = ''synthetic'' \<longleftrightarrow> length (history r) < 2)
     \<and> (method_used r = ''moving_avg'' \<longleftrightarrow> 2 \<le> length (history r) \<and> length (history r) < 12)
     \<and> (method_used r = ''naive_seasonal'' \<longleftrightarrow> length (history r) = 12)"
proof -
  let ?g = "generate_synthetic_timeseries E date_from date_to 12 100"
  let ?y = "to_monthly_df ?g"
  have gne: "?g \<noteq> []" using gen by auto
  then have yne: "?y \<noteq> []" by (simp add: to_monthly_df_Nil_iff)
  have "\<not> spec_is_daily ?g" using gen by (simp add: spec_is_daily_def)
  then have ylen: "length ?y \<le> 12" using length_to_monthly_df_le[of ?g] gen by simp
  have ph: "prepare_history E disease region date_from date_to =
     (?y, [''synthetic: seasonal baseline (no/flat data)''],
      [''No usable live or local data in the requested window.''])"
    unfolding prepare_history_def history_all_empty[OF live loc] using yne by simp
  from choose_method_total[of ?y E date_from 6] yne
  obtain mean conf m added
    where ch: "choose_method E ?y date_from 6 = Inr ((mean, conf, m), added)"
    by (metis prod_cases3)
  have y24: "length ?y < 24" using ylen by simp
  note bl = choose_method_by_length[OF ch y24]
  from bl have "\<exists>a mean0 conf0. (mean, conf, m) = as_frames (mean0, conf0, m)
            \<and> banded_on a 6 (mean0, conf0, m)" by (rule conjunct1)
  then obtain a mean0 conf0 where fr: "(mean, conf, m) = as_frames (mean0, conf0, m)"
    and b: "banded_on a 6 (mean0, conf0, m)" by (elim exE conjE)
  have fmt: "format_forecast mean conf = Inr (map (clamp_point conf) mean)"
    using b fr by (rule banded_format)
  have "length (map fst mean) = 6" unfolding banded_dates[OF b fr] by simp
  then have len: "length mean = 6" by simp
  let ?w = "[''No usable live or local data in the requested window.''] @ added"
  let ?r = "\<lparr>history = ?y, forecast = map (clamp_point conf) mean, method_used = m,
            provenance = [''synthetic: seasonal baseline (no/flat data)''],
            warnings = ?w\<rparr>"
  have fm: "forecast_monthly E disease region date_from date_to 6 = Inr ?r"
    unfolding forecast_monthly_def ph using ch fmt by simp
  have m1: "m = ''synthetic'' \<longleftrightarrow> length ?y < 2" using bl by simp
  have m2: "m = ''moving_avg'' \<longleftrightarrow> 2 \<le> length ?y \<and> length ?y < 12" using bl by simp
  have m3: "m = ''naive_seasonal'' \<longleftrightarrow> length ?y = 12" using bl ylen by simp
  have "forecast_monthly E disease region date_from date_to 6 = Inr ?r
     \<and> length (forecast ?r) = 6
     \<and> history ?r = ?y
     \<and> provenance ?r = [''synthetic: seasonal baseline (no/flat data)'']
     \<and> warnings ?r \<noteq> []
     \<and> hd (warnings ?r) = ''No usable live or local data in the requested window.''
     \<and> (method_used ?r = ''synthetic'' \<longleftrightarrow> length (history ?r) < 2)
     \<and> (method_used ?r = ''moving_avg'' \<longleftrightarrow> 2 \<le> length (history ?r) \<and> length (history ?r) < 12)
     \<and> (method_used ?r = ''naive_seasonal'' \<longleftrightarrow> length (history ?r) = 12)"
    using fm len m1 m2 m3 by simp
  then show ?thesis by (rule exI[of _ ?r])
qed

lemma baseline_normal: "monthly_normal (synthetic_baseline start n v)"
proof -
  have m: "map (\<lambda>r. mon (fst r)) (synthetic_baseline start n v) = map (\<lambda>i. mon start + int i) [0..<n]"
    by (simp add: synthetic_baseline_def o_def)
  have s: "sorted (map (\<lambda>i. mon start + int i) [0..<n])"
    by (simp add: sorted_map)
  have d: "distinct (map (\<lambda>i. mon start + int i) [0..<n])"
    by (simp add: distinct_map inj_on_def)
  have o: "list_all (\<lambda>r. day (fst r) = 1) (synthetic_baseline start n v)"
    by (simp add: synthetic_baseline_def list_all_iff)
  show ?thesis unfolding monthly_normal_def m using s d o by simp
qed

lemma length_baseline: "length (synthetic_baseline start n v) = n"
  by (simp add: synthetic_baseline_def)

lemma demo_all_local_empty:
  "list_all (\<lambda>r. try_fetch_local (demo_env b no_local synth) dl r df dt = []) keys"
  by (simp add: demo_try_local list_all_iff no_local_def)

text \<open>
  Claim C4, as amended. When the live stage yields nothing, the local adapter yields
  nothing for any region key tried, and the synthetic generator returns the 12 points
  it is asked for, \<^verbatim>\<open>forecast_monthly\<close> with a horizon of 6 returns a result with exactly 6
  forecast points, the normalized synthetic baseline as history, the synthetic
  provenance entry, and a non-empty list of warnings that starts with the warning about
  missing live and local data. The method names the forecaster that ran on the
  baseline: \<open>synthetic\<close> only when the baseline covers a single month, \<open>moving_avg\<close> for 2
  to 11 months, \<open>naive_seasonal\<close> for 12.
\<close>

theorem degradation_floor:
  assumes "fst (live_stage E (strip (lower disease)) region date_from date_to) = []"
    and "list_all (\<lambda>r. try_fetch_local E (strip (lower disease)) r date_from date_to = [])
             (tried_regions E region)"
    and "length (generate_synthetic_timeseries E date_from date_to 12 100) = 12"
  shows "\<exists>r. forecast_monthly E disease region date_from date_to 6 = Inr r
     \<and> length (forecast r) = 6
     \<and> history r = to_monthly_df (generate_synthetic_timeseries E date_from date_to 12 100)
     \<and> provenance r = [''synthetic: seasonal baseline (no/flat data)'']
     \<and> warnings r \<noteq> []
     \<and> hd (warnings r) = ''No usable live or local data in the requested window.''
     \<and> (method_used r = ''synthetic'' \<longleftrightarrow> length (history r) < 2)
     \<and> (method_used r = ''moving_avg'' \<longleftrightarrow> 2 \<le> length (history r) \<and> length (history r) < 12)
     \<and> (method_used r = ''naive_seasonal'' \<longleftrightarrow> length (history r) = 12)"
  using assms by (rule degradation_floor_lemma)

lemma demo_floor:
  fixes E defines "E \<equiv> demo_env False no_local (synthetic_baseline (ymd 2021 1 1) 12 100)"
  shows "\<exists>r. forecast_monthly E ''dengue'' ''Sri Lanka'' ''2021-01-01'' ''2021-12-31'' 6 = Inr r
     \<and> method_used r = ''naive_seasonal''
     \<and> warnings r = [''No usable live or local data in the requested window.'']"
proof -
  let ?g = "synthetic_baseline (ymd 2021 1 1) 12 100"
  have g: "generate_synthetic_timeseries E ''2021-01-01'' ''2021-12-31'' 12 100 = ?g"
    by (simp add: E_def demo_synth)
  have y: "to_monthly_df ?g = ?g" by (rule to_monthly_df_fixed) (rule baseline_normal)
  have gne: "?g \<noteq> []" using length_baseline[of "ymd 2021 1 1" 12 100] by auto
  have live: "fst (live_stage E (strip (lower ''dengue'')) ''Sri Lanka'' ''2021-01-01'' ''2021-12-31'') = []"
    by (simp add: E_def demo_live)
  have loc: "list_all (\<lambda>r. try_fetch_local E (strip (lower ''dengue'')) r ''2021-01-01'' ''2021-12-31'' = [])
             (tried_regions E ''Sri Lanka'')"
    unfolding E_def by (rule demo_all_local_empty)
  have ph: "prepare_history E ''dengue'' ''Sri Lanka'' ''2021-01-01'' ''2021-12-31'' =
     (?g, [''synthetic: seasonal baseline (no/flat data)''],
      [''No usable live or local data in the requested window.''])"
    unfolding prepare_history_def history_all_empty[OF live loc] g y using gne by simp
  from choose_method_total[of ?g E "''2021-01-01''" 6] gne
  obtain mean conf m added
    where ch: "choose_method E ?g ''2021-01-01'' 6 = Inr ((mean, conf, m), added)"
    by (metis prod_cases3)
  have l: "length ?g < 24" by (simp add: length_baseline)
  note bl = choose_method_by_length[OF ch l]
  from bl have "\<exists>a mean0 conf0. (mean, conf, m) = as_frames (mean0, conf0, m)
            \<and> banded_on a 6 (mean0, conf0, m)" by (rule conjunct1)
  then obtain a mean0 conf0 where fr: "(mean, conf, m) = as_frames (mean0, conf0, m)"
    and b: "banded_on a 6 (mean0, conf0, m)" by (elim exE conjE)
  have fmt: "format_forecast mean conf = Inr (map (clamp_point conf) mean)"
    using b fr by (rule banded_format)
  have m: "m = ''naive_seasonal''" using bl by (simp add: length_baseline)
  have ad: "added = []" using bl by (simp add: length_baseline)
  let ?r = "\<lparr>history = ?g, forecast = map (clamp_point conf) mean, method_used = m,
            provenance = [''synthetic: seasonal baseline (no/flat data)''],
            warnings = [''No usable live or local data in the requested window.'']\<rparr>"
  have fm: "forecast_monthly E ''dengue'' ''Sri Lanka'' ''2021-01-01'' ''2021-12-31'' 6 = Inr ?r"
    unfolding forecast_monthly_def ph using ch fmt ad by simp
  have "forecast_monthly E ''dengue'' ''Sri Lanka'' ''2021-01-01'' ''2021-12-31'' 6 = Inr ?r
     \<and> method_used ?r = ''naive_seasonal''
     \<and> warnings ?r = [''No usable live or local data in the requested window.'']"
    using fm m by simp
  then show ?thesis by (rule exI[of _ ?r])
qed

text \<open>
  The claim as stated, method \<open>synthetic\<close>, fails for a generator that returns one
  observation per month: the seasonal-naive forecaster accepts the 12 months, and the
  only warning is the one about missing live and local data.
\<close>

theorem degradation_floor_counterexample:
  "result_method (forecast_monthly
       (demo_env False no_local (synthetic_baseline (ymd 2021 1 1) 12 100))
       ''dengue'' ''Sri Lanka'' ''2021-01-01'' ''2021-12-31'' 6) = Some ''naive_seasonal''
   \<and> result_method (forecast_monthly
       (demo_env False no_local (synthetic_baseline (ymd 2021 1 1) 12 100))
       ''dengue'' ''Sri Lanka'' ''2021-01-01'' ''2021-12-31'' 6) \<noteq> Some ''synthetic''
   \<and> result_warnings (forecast_monthly
       (demo_env False no_local (synthetic_baseline (ymd 2021 1 1) 12 100))
       ''dengue'' ''Sri Lanka'' ''2021-01-01'' ''2021-12-31'' 6)
      = Some [''No usable live or local data in the requested window.'']"
proof -
  from demo_floor obtain r where
    "forecast_monthly (demo_env False no_local (synthetic_baseline (ymd 2021 1 1) 12 100))
       ''dengue'' ''Sri Lanka'' ''2021-01-01'' ''2021-12-31'' 6 = Inr r"
    "method_used r = ''naive_seasonal''"
    "warnings r = [''No usable live or local data in the requested window.'']"
    by (elim exE conjE)
  then show ?thesis by (simp add: result_method_def result_warnings_def)
qed

theorem degradation_floor_witness:
  "fst (live_stage (demo_env False no_local (synthetic_baseline (ymd 2021 1 1) 12 100))
         (strip (lower ''covid-19'')) ''Sri Lanka'' ''2021-01-01'' ''2021-12-31'') = []
   \<and> length (generate_synthetic_timeseries
         (demo_env False no_local (synthetic_baseline (ymd 2021 1 1) 12 100))
         ''2021-01-01'' ''2021-12-31'' 12 100) = 12
   \<and> (\<exists>r. forecast_monthly (demo_env False no_local (synthetic_baseline (ymd 2021 1 1) 12 100))
         ''covid-19'' ''Sri Lanka'' ''2021-01-01'' ''2021-12-31'' 6 = Inr r
        \<and> length (forecast r) = 6 \<and> warnings r \<noteq> [])"
proof -
  let ?E = "demo_env False no_local (synthetic_baseline (ymd 2021 1 1) 12 100)"
  have 1: "fst (live_stage ?E (strip (lower ''covid-19'')) ''Sri Lanka'' ''2021-01-01'' ''2021-12-31'') = []"
    by (simp add: demo_live)
  have 2: "list_all (\<lambda>r. try_fetch_local ?E (strip (lower ''covid-19'')) r ''2021-01-01'' ''2021-12-31'' = [])
             (tried_regions ?E ''Sri Lanka'')"
    by (rule demo_all_local_empty)
  have 3: "length (generate_synthetic_timeseries ?E ''2021-01-01'' ''2021-12-31'' 12 100) = 12"
    by (simp add: demo_synth length_baseline)
  from degradation_floor[OF 1 2 3] obtain r where
    "forecast_monthly ?E ''covid-19'' ''Sri Lanka'' ''2021-01-01'' ''2021-12-31'' 6 = Inr r"
    "length (forecast r) = 6" "warnings r \<noteq> []"
    by (elim exE conjE)
  then have "\<exists>r. forecast_monthly ?E ''covid-19'' ''Sri Lanka'' ''2021-01-01'' ''2021-12-31'' 6 = Inr r
        \<and> length (forecast r) = 6 \<and> warnings r \<noteq> []"
    by (intro exI[of _ r] conjI)
  then show ?thesis using 1 3 by (intro conjI)
qed

section \<open>The local stage of the resolver\<close>

lemma local_stage_lemma:
  assumes "needs_fallback (fst (live_stage E (strip (lower disease)) region date_from date_to))"
  shows "get_monthly_history E disease region date_from date_to =
     (case first_nonempty_key E (strip (lower disease)) date_from date_to (tried_regions E region) of
        Some r \<Rightarrow>
          if needs_fallback (try_fetch_local E (strip (lower disease)) r date_from date_to)
          then (to_monthly_df (generate_synthetic_timeseries E date_from date_to 12 100),
                snd (live_stage E (strip (lower disease)) region date_from date_to)
                  @ [local_note r, ''synthetic: seasonal baseline (no/flat data)''],
                [])
          else (to_monthly_df (try_fetch_local E (strip (lower disease)) r date_from date_to),
                snd (live_stage E (strip (lower disease)) region date_from date_to) @ [local_note r],
                [])
      | None \<Rightarrow>
          (to_monthly_df (generate_synthetic_timeseries E date_from date_to 12 100),
           snd (live_stage E (strip (lower disease)) region date_from date_to)
             @ [''synthetic: seasonal baseline (no/flat data)''],
           [''No usable live or local data in the requested window.'']))"
  unfolding history_stages using assms by (simp add: Let_def)

lemma first_nonempty_key_Some:
  "first_nonempty_key E dl df dt keys = Some r \<longleftrightarrow>
     (\<exists>i<length keys. keys ! i = r \<and> try_fetch_local E dl r df dt \<noteq> []
        \<and> (\<forall>j<i. try_fetch_local E dl (keys ! j) df dt = []))"
  unfolding first_nonempty_key_def find_Some_iff by auto

text \<open>
  Claim C7, as amended. When the live stage leaves no usable series, the local stage
  tries the region keys in order and stops at the first key for which the local adapter
  returns a series that is not empty, whether or not that series is usable: a usable
  one becomes the history, an unusable one is replaced by the synthetic baseline, and
  in both cases no warning is appended. Exactly one warning is appended when no key
  yields a non-empty series, and the cascade then falls to the synthetic baseline.
\<close>

theorem local_stage_first_nonempty:
  assumes "needs_fallback (fst (live_stage E (strip (lower disease)) region date_from date_to))"
  shows "get_monthly_history E disease region date_from date_to =
     (case first_nonempty_key E (strip (lower disease)) date_from date_to (tried_regions E region) of
        Some r \<Rightarrow>
          if needs_fallback (try_fetch_local E (strip (lower disease)) r date_from date_to)
          then (to_monthly_df (generate_synthetic_timeseries E date_from date_to 12 100),
                snd (live_stage E (strip (lower disease)) region date_from date_to)
                  @ [local_note r, ''synthetic: seasonal baseline (no/flat data)''],
                [])
          else (to_monthly_df (try_fetch_local E (strip (lower disease)) r date_from date_to),
                snd (live_stage E (strip (lower disease)) region date_from date_to) @ [local_note r],
                [])
      | None \<Rightarrow>
          (to_monthly_df (generate_synthetic_timeseries E date_from date_to 12 100),
           snd (live_stage E (strip (lower disease)) region date_from date_to)
             @ [''synthetic: seasonal baseline (no/flat data)''],
           [''No usable live or local data in the requested window.'']))
   \<and> (first_nonempty_key E (strip (lower disease)) date_from date_to (tried_regions E region) = Some r
        \<longleftrightarrow> (\<exists>i<length (tried_regions E region). tried_regions E region ! i = r
               \<and> try_fetch_local E (strip (lower disease)) r date_from date_to \<noteq> []
               \<and> (\<forall>j<i. try_fetch_local E (strip (lower disease)) (tried_regions E region ! j)
                          date_from date_to = [])))"
  using local_stage_lemma[OF assms] first_nonempty_key_Some by (rule conjI)

lemma demo_needs_fallback:
  "needs_fallback (fst (live_stage (demo_env b local synth) dl region df dt))"
  by (simp add: demo_live)

lemma flat1_unusable: "needs_fallback flat1"
  by (simp add: needs_fallback_def flat1_def)

lemma ok3_usable: "\<not> needs_fallback ok3"
  by (simp add: needs_fallback_def ok3_def is_flat_def list_max_def list_min_def)

lemma ramp12_normal: "to_monthly_df ramp12 = ramp12"
  by (rule to_monthly_df_fixed) (simp add: monthly_normal_def ramp12_def ymd_def)

lemma demo_first_key_flat:
  "first_nonempty_key (demo_env b (local_two flat1 s) synth) dl df dt [''Sri Lanka'', ''LKA'']
     = Some ''Sri Lanka''"
  by (simp add: first_nonempty_key_def demo_try_local local_two_def flat1_def)

lemma demo_flat_first_history:
  "get_monthly_history (demo_env b (local_two flat1 s) ramp12) ''dengue'' ''Sri Lanka'' df dt
     = (ramp12,
        [local_note ''Sri Lanka'', ''synthetic: seasonal baseline (no/flat data)''], [])"
  unfolding local_stage_lemma[OF demo_needs_fallback] demo_tried demo_first_key_flat
  by (simp add: demo_try_local local_two_def flat1_unusable demo_synth ramp12_normal demo_live)

theorem local_stage_first_nonempty_witness:
  "needs_fallback (fst (live_stage (demo_env False (local_two flat1 ok3) ramp12)
       (strip (lower ''dengue'')) ''Sri Lanka'' ''2021-01-01'' ''2021-12-31''))
   \<and> get_monthly_history (demo_env False (local_two flat1 ok3) ramp12)
        ''dengue'' ''Sri Lanka'' ''2021-01-01'' ''2021-12-31''
      = (ramp12, [local_note ''Sri Lanka'', ''synthetic: seasonal baseline (no/flat data)''], [])"
proof -
  let ?E = "demo_env False (local_two flat1 ok3) ramp12"
  have 1: "needs_fallback (fst (live_stage ?E (strip (lower ''dengue'')) ''Sri Lanka''
             ''2021-01-01'' ''2021-12-31''))"
    by (rule demo_needs_fallback)
  have "get_monthly_history ?E ''dengue'' ''Sri Lanka'' ''2021-01-01'' ''2021-12-31'' =
     (case first_nonempty_key ?E (strip (lower ''dengue'')) ''2021-01-01'' ''2021-12-31''
             (tried_regions ?E ''Sri Lanka'') of
        Some r \<Rightarrow>
          if needs_fallback (try_fetch_local ?E (strip (lower ''dengue'')) r ''2021-01-01'' ''2021-12-31'')
          then (to_monthly_df (generate_synthetic_timeseries ?E ''2021-01-01'' ''2021-12-31'' 12 100),
                snd (live_stage ?E (strip (lower ''dengue'')) ''Sri Lanka'' ''2021-01-01'' ''2021-12-31'')
                  @ [local_note r, ''synthetic: seasonal baseline (no/flat data)''],
                [])
          else (to_monthly_df (try_fetch_local ?E (strip (lower ''dengue'')) r ''2021-01-01'' ''2021-12-31''),
                snd (live_stage ?E (strip (lower ''dengue'')) ''Sri Lanka'' ''2021-01-01'' ''2021-12-31'')
                  @ [local_note r],
                [])
      | None \<Rightarrow>
          (to_monthly_df (generate_synthetic_timeseries ?E ''2021-01-01'' ''2021-12-31'' 12 100),
           snd (live_stage ?E (strip (lower ''dengue'')) ''Sri Lanka'' ''2021-01-01'' ''2021-12-31'')
             @ [''synthetic: seasonal baseline (no/flat data)''],
           [''No usable live or local data in the requested window.'']))"
    using local_stage_first_nonempty[OF 1] by (rule conjunct1)
  then have "get_monthly_history ?E ''dengue'' ''Sri Lanka'' ''2021-01-01'' ''2021-12-31''
      = (ramp12, [local_note ''Sri Lanka'', ''synthetic: seasonal baseline (no/flat data)''], [])"
    unfolding demo_tried demo_first_key_flat
    by (simp add: demo_try_local local_two_def flat1_unusable demo_synth ramp12_normal demo_live)
  then show ?thesis using 1 by (rule conjI[rotated])
qed

text \<open>
  The claim as stated fails: the loop stops at the key \<open>Sri Lanka\<close> with a single
  observation although the key \<open>LKA\<close> would give a usable series, and when no key gives
  a usable series but one gives a non-empty one, no warning is appended.
\<close>

theorem local_stage_usable_counterexample:
  "tried_regions (demo_env False (local_two flat1 ok3) ramp12) ''Sri Lanka'' = [''Sri Lanka'', ''LKA'']
   \<and> try_fetch_local (demo_env False (local_two flat1 ok3) ramp12) ''dengue'' ''Sri Lanka''
        ''2021-01-01'' ''2021-12-31'' = flat1
   \<and> needs_fallback flat1
   \<and> try_fetch_local (demo_env False (local_two flat1 ok3) ramp12) ''dengue'' ''LKA''
        ''2021-01-01'' ''2021-12-31'' = ok3
   \<and> \<not> needs_fallback ok3
   \<and> get_monthly_history (demo_env False (local_two flat1 ok3) ramp12)
        ''dengue'' ''Sri Lanka'' ''2021-01-01'' ''2021-12-31''
      = (ramp12, [local_note ''Sri Lanka'', ''synthetic: seasonal baseline (no/flat data)''], [])
   \<and> get_monthly_history (demo_env False (local_two flat1 []) ramp12)
        ''dengue'' ''Sri Lanka'' ''2021-01-01'' ''2021-12-31''
      = (ramp12, [local_note ''Sri Lanka'', ''synthetic: seasonal baseline (no/flat data)''], [])"
  by (simp add: demo_tried demo_try_local local_two_def flat1_unusable ok3_usable
      demo_flat_first_history)

text \<open>
  Claim C10. If the live stage yields no usable series and the region key at which the
  local stage stops, the first one for which the local adapter returns a non-empty
  series, returns a series that is flat or has fewer than 2 observations, then
  \<^verbatim>\<open>get_monthly_history\<close> discards that series: it returns the normalized synthetic
  baseline, a provenance that ends with the entry of that local key followed by the
  synthetic entry, and no warning.
\<close>

theorem flat_local_falls_to_synthetic:
  assumes "needs_fallback (fst (live_stage E (strip (lower disease)) region date_from date_to))"
    and "first_nonempty_key E (strip (lower disease)) date_from date_to (tried_regions E region)
           = Some r"
    and "needs_fallback (try_fetch_local E (strip (lower disease)) r date_from date_to)"
  shows "get_monthly_history E disease region date_from date_to =
     (to_monthly_df (generate_synthetic_timeseries E date_from date_to 12 100),
      snd (live_stage E (strip (lower disease)) region date_from date_to)
        @ [local_note r, ''synthetic: seasonal baseline (no/flat data)''],
      [])"
  unfolding local_stage_lemma[OF assms(1)] using assms(2,3) by simp

theorem flat_local_falls_to_synthetic_witness:
  "needs_fallback (fst (live_stage (demo_env False (local_two flat1 ok3) ramp12)
       (strip (lower ''dengue'')) ''Sri Lanka'' ''2021-01-01'' ''2021-12-31''))
   \<and> first_nonempty_key (demo_env False (local_two flat1 ok3) ramp12) (strip (lower ''dengue''))
        ''2021-01-01'' ''2021-12-31''
        (tried_regions (demo_env False (local_two flat1 ok3) ramp12) ''Sri Lanka'') = Some ''Sri Lanka''
   \<and> needs_fallback (try_fetch_local (demo_env False (local_two flat1 ok3) ramp12)
        (strip (lower ''dengue'')) ''Sri Lanka'' ''2021-01-01'' ''2021-12-31'')
   \<and> get_monthly_history (demo_env False (local_two flat1 ok3) ramp12)
        ''dengue'' ''Sri Lanka'' ''2021-01-01'' ''2021-12-31''
      = (ramp12, [local_note ''Sri Lanka'', ''synthetic: seasonal baseline (no/flat data)''], [])"
proof -
  let ?E = "demo_env False (local_two flat1 ok3) ramp12"
  have 1: "needs_fallback (fst (live_stage ?E (strip (lower ''dengue'')) ''Sri Lanka''
             ''2021-01-01'' ''2021-12-31''))"
    by (rule demo_needs_fallback)
  have 2: "first_nonempty_key ?E (strip (lower ''dengue'')) ''2021-01-01'' ''2021-12-31''
             (tried_regions ?E ''Sri Lanka'') = Some ''Sri Lanka''"
    unfolding demo_tried by (rule demo_first_key_flat)
  have 3: "needs_fallback (try_fetch_local ?E (strip (lower ''dengue'')) ''Sri Lanka''
             ''2021-01-01'' ''2021-12-31'')"
    by (simp add: demo_try_local local_two_def flat1_unusable)
  have "get_monthly_history ?E ''dengue'' ''Sri Lanka'' ''2021-01-01'' ''2021-12-31''
      = (ramp12, [local_note ''Sri Lanka'', ''synthetic: seasonal baseline (no/flat data)''], [])"
    unfolding flat_local_falls_to_synthetic[OF 1 2 3]
    by (simp add: demo_synth ramp12_normal demo_live)
  then show ?thesis using 1 2 3 by (intro conjI)
qed

text \<open>
  The local adapter of the repository maps every region key to an ISO3 code before it
  filters the dataset, so the keys that yield data all yield the same series. With
  such an adapter, a non-empty unusable series under any one of the keys tried is the
  series at which the local stage stops, and the history is the synthetic baseline.
\<close>

lemma flat_local_one_dataset:
  assumes "needs_fallback (fst (live_stage E (strip (lower disease)) region date_from date_to))"
    and "\<forall>k \<in> set (tried_regions E region).
           try_fetch_local E (strip (lower disease)) k date_from date_to = []
           \<or> try_fetch_local E (strip (lower disease)) k date_from date_to = s"
    and "k \<in> set (tried_regions E region)"
    and "try_fetch_local E (strip (lower disease)) k date_from date_to \<noteq> []"
    and "needs_fallback (try_fetch_local E (strip (lower disease)) k date_from date_to)"
  shows "\<exists>r. first_nonempty_key E (strip (lower disease)) date_from date_to (tried_regions E region)
              = Some r
     \<and> get_monthly_history E disease region date_from date_to =
         (to_monthly_df (generate_synthetic_timeseries E date_from date_to 12 100),
          snd (live_stage E (strip (lower disease)) region date_from date_to)
            @ [local_note r, ''synthetic: seasonal baseline (no/flat data)''],
          [])"
proof -
  let ?f = "\<lambda>k. try_fetch_local E (strip (lower disease)) k date_from date_to"
  have "first_nonempty_key E (strip (lower disease)) date_from date_to (tried_regions E region)
          \<noteq> None"
    using assms(3,4) by (auto simp: first_nonempty_key_def find_None_iff)
  then obtain r where r: "first_nonempty_key E (strip (lower disease)) date_from date_to
      (tried_regions E region) = Some r" by auto
  then have "r \<in> set (tried_regions E region)" "?f r \<noteq> []"
    by (auto simp: first_nonempty_key_def find_Some_iff)
  then have "?f r = s" using assms(2) by auto
  moreover have "?f k = s" using assms(2,3,4) by auto
  ultimately have "needs_fallback (?f r)" using assms(5) by simp
  then show ?thesis
    unfolding local_stage_lemma[OF assms(1)] using r by simp
qed

end
